theory Spec2Isabelle
  imports Main
begin

section \<open>Documents of the store\<close>

text \<open>
  An ObjectId is modelled as a natural number; dates are milliseconds since the epoch.
  The bookkeeping fields \<open>createdAt\<close>, \<open>updatedAt\<close> and \<open>__v\<close> that the
  \<open>timestamps\<close> option maintains are not part of the model.
\<close>

type_synonym oid = nat

text \<open>models/groupMember.js, the elements of \<open>attendance\<close>.\<close>

record AttendanceEntry =
  a_date :: int
  a_status :: string
  a_notes :: string

text \<open>models/group.js\<close>

record GroupDoc =
  g_id :: oid
  g_name :: string
  g_description :: "string option"
  g_purpose :: "string option"
  g_meetingFrequency :: string
  g_customFrequency :: "string option"
  g_meetingDay :: string
  g_meetingTime :: "string option"
  g_meetingLocation :: "string option"
  g_isActive :: bool
  g_leaders :: "oid list"
  g_createdBy :: oid
  g_church :: "oid option"

text \<open>models/subgroup.js\<close>

record SubgroupDoc =
  sg_id :: oid
  sg_name :: string
  sg_description :: "string option"
  sg_parentGroup :: oid
  sg_leaders :: "oid list"
  sg_meetingDay :: string
  sg_meetingTime :: "string option"
  sg_meetingLocation :: "string option"
  sg_isActive :: bool
  sg_createdBy :: oid
  sg_church :: oid

text \<open>models/groupMember.js\<close>

record GroupMemberDoc =
  m_id :: oid
  m_person :: oid
  m_group :: oid
  m_subgroup :: "oid option"
  m_role :: string
  m_joinDate :: int
  m_isActive :: bool
  m_notes :: "string option"
  m_attendance :: "AttendanceEntry list"
  m_church :: oid

text \<open>models/churchUser.js\<close>

record ChurchUserDoc =
  cu_id :: oid
  cu_person :: oid
  cu_username :: string
  cu_password :: string
  cu_role :: string
  cu_permissions :: "string list"
  cu_teamLeaderships :: "string list"
  cu_groupLeaderships :: "oid list"
  cu_subgroupLeaderships :: "oid list"

text \<open>models/person.js: the fields the group routes read.\<close>

record PersonDoc =
  p_id :: oid
  p_firstName :: string
  p_lastName :: string

text \<open>The five collections. Every write of a handler returns the updated store.\<close>

record db =
  groups :: "GroupDoc list"
  subgroups :: "SubgroupDoc list"
  groupMembers :: "GroupMemberDoc list"
  churchUsers :: "ChurchUserDoc list"
  people :: "PersonDoc list"

subsection \<open>Collection operations\<close>

text \<open>
  \<open>findOne\<close>/\<open>findById\<close> return the first match, \<open>deleteMany\<close> and
  \<open>updateMany\<close> act on every match, \<open>deleteOne\<close> and \<open>updateOne\<close> on the
  first match only. A document's \<open>save\<close> is an \<open>updateOne\<close> by \<open>_id\<close> that
  writes the paths the handler modified.
\<close>

definition findOne :: "('a \<Rightarrow> bool) \<Rightarrow> 'a list \<Rightarrow> 'a option" where
  "findOne P xs = List.find P xs"

definition deleteMany :: "('a \<Rightarrow> bool) \<Rightarrow> 'a list \<Rightarrow> 'a list" where
  "deleteMany P xs = filter (\<lambda>x. \<not> P x) xs"

definition updateMany :: "('a \<Rightarrow> bool) \<Rightarrow> ('a \<Rightarrow> 'a) \<Rightarrow> 'a list \<Rightarrow> 'a list" where
  "updateMany P f xs = map (\<lambda>x. if P x then f x else x) xs"

fun deleteOne :: "('a \<Rightarrow> bool) \<Rightarrow> 'a list \<Rightarrow> 'a list" where
  "deleteOne P [] = []"
| "deleteOne P (x # xs) = (if P x then xs else x # deleteOne P xs)"

fun updateOne :: "('a \<Rightarrow> bool) \<Rightarrow> ('a \<Rightarrow> 'a) \<Rightarrow> 'a list \<Rightarrow> 'a list" where
  "updateOne P f [] = []"
| "updateOne P f (x # xs) = (if P x then f x # xs else x # updateOne P f xs)"

text \<open>
  A schema string with \<open>trim: true\<close> is stored trimmed (ASCII white space here).
\<close>

definition is_space :: "char \<Rightarrow> bool" where
  "is_space c = (c \<in> set [CHR '' '', CHR 0x09, CHR 0x0A, CHR 0x0B, CHR 0x0C, CHR 0x0D])"

definition trim :: "string \<Rightarrow> string" where
  "trim str = rev (dropWhile is_space (rev (dropWhile is_space str)))"


section \<open>The caller and the access checks\<close>

text \<open>
  middleware/auth.js puts the decoded token into \<open>req.user\<close>, with the four lists
  defaulted to \<open>[]\<close>. The leadership lists of a token are arrays of id strings.
  \<open>u_church\<close> is \<open>None\<close> when the token has no \<open>church\<close> field (the tokens
  signed by routes/auth.js carry none); a filter \<open>church: undefined\<close> then matches
  the documents that have no church.
\<close>

record req_user =
  u_id :: oid
  u_role :: string
  u_permissions :: "string list"
  u_groupLeaderships :: "oid list"
  u_subgroupLeaderships :: "oid list"
  u_church :: "oid option"

text \<open>
  An id reaches \<open>Array.prototype.includes\<close> either as a string (a route parameter,
  a \<open>toString()\<close>) or as an ObjectId object (\<open>member.group._id\<close>). \<open>includes\<close>
  compares with SameValueZero, so an ObjectId object is never found among strings.
\<close>

datatype jsid = IdString oid | IdObject oid

fun js_includes :: "oid list \<Rightarrow> jsid \<Rightarrow> bool" where
  "js_includes xs (IdString i) = (i \<in> set xs)"
| "js_includes xs (IdObject i) = False"

text \<open>utils/roles.js\<close>

definition PERMISSIONS :: "string \<Rightarrow> string list option" where
  "PERMISSIONS role =
    (if role = ''admin'' then
       Some [''manage_users'', ''manage_people'', ''manage_households'', ''manage_events'',
             ''manage_teams'', ''manage_groups'', ''manage_group_members'', ''view_people'',
             ''view_households'', ''view_events'', ''view_groups'', ''perform_check_in'',
             ''register_newcomers'']
     else if role = ''event_manager'' then
       Some [''manage_events'', ''manage_teams'', ''view_events'', ''view_people'',
             ''view_groups'', ''perform_check_in'', ''register_newcomers'']
     else if role = ''team_lead'' then
       Some [''manage_teams'', ''view_events'', ''view_people'', ''view_groups'']
     else if role = ''group_leader'' then
       Some [''manage_group_members'', ''view_groups'', ''view_people'', ''view_events'']
     else if role = ''group_admin'' then
       Some [''manage_groups'', ''manage_group_members'', ''view_groups'', ''view_people'',
             ''view_events'']
     else if role = ''check_in_staff'' then
       Some [''view_events'', ''view_groups'', ''perform_check_in'', ''register_newcomers'']
     else if role = ''user'' then
       Some [''view_events'', ''view_groups'']
     else None)"

definition hasPermission :: "string \<Rightarrow> string \<Rightarrow> bool" where
  "hasPermission role permission =
    (case PERMISSIONS role of None \<Rightarrow> False | Some ps \<Rightarrow> permission \<in> set ps)"

text \<open>middleware/auth.js, \<open>checkPermission(permission)\<close>: True when the request passes.\<close>

definition checkPermission :: "string \<Rightarrow> req_user \<Rightarrow> bool" where
  "checkPermission permission user = hasPermission (u_role user) permission"

text \<open>routes/group.js, \<open>authorizeGroupAccess\<close>\<close>

definition authorizeGroupAccess :: "req_user \<Rightarrow> jsid \<Rightarrow> bool" where
  "authorizeGroupAccess user groupId =
    (if u_role user = ''admin'' \<or> ''manage_groups'' \<in> set (u_permissions user) then True
     else if js_includes (u_groupLeaderships user) groupId then True
     else False)"

text \<open>routes/subgroup.js, \<open>authorizeSubgroupAccess\<close>\<close>

definition authorizeSubgroupAccess :: "req_user \<Rightarrow> oid \<Rightarrow> db \<Rightarrow> bool" where
  "authorizeSubgroupAccess user subgroupId s =
    (if u_role user = ''admin'' \<or> ''manage_groups'' \<in> set (u_permissions user) then True
     else if js_includes (u_subgroupLeaderships user) (IdString subgroupId) then True
     else case findOne (\<lambda>sg. sg_id sg = subgroupId) (subgroups s) of
            None \<Rightarrow> False
          | Some subgroup \<Rightarrow>
              if js_includes (u_groupLeaderships user) (IdString (sg_parentGroup subgroup))
              then True else False)"

section \<open>Responses\<close>

text \<open>
  The error responses of the handlers: \<open>NotFound\<close> is a 404, \<open>Unauthorized\<close> a 403,
  \<open>ServerError\<close> the 500 of a \<open>catch\<close> block. \<open>DuplicateMembership\<close> is the 400
  "Person is already a member of this group", \<open>InvalidSubgroupAssignment\<close> the 400
  "Person must be a member of the parent group before joining a subgroup",
  \<open>ValidationError\<close> the 400 sent for a Mongoose validation error and \<open>BadRequest\<close>
  the 400 for a missing request field.
\<close>

datatype error =
  NotFound | Unauthorized | DuplicateMembership | InvalidSubgroupAssignment
  | ValidationError | BadRequest | ServerError

section \<open>Schema validation\<close>

text \<open>
  A document's \<open>save\<close> validates the document against its schema and writes nothing
  when the validation fails: a required string must be non-empty, a string with an
  \<open>enum\<close> must be one of its values, and so must every element of an array of such
  strings and the \<open>status\<close> of every attendance entry. The required ObjectIds and
  dates are present by the types of the records. \<open>deleteMany\<close>, \<open>updateMany\<close>,
  \<open>deleteOne\<close> and \<open>findOneAndUpdate\<close> run no validation.
\<close>

definition meetingFrequencies :: "string list" where
  "meetingFrequencies = [''weekly'', ''biweekly'', ''monthly'', ''quarterly'', ''custom'']"

definition meetingDays :: "string list" where
  "meetingDays = [''monday'', ''tuesday'', ''wednesday'', ''thursday'', ''friday'',
                  ''saturday'', ''sunday'', ''varies'']"

definition validGroup :: "GroupDoc \<Rightarrow> bool" where
  "validGroup g =
    (g_name g \<noteq> [] \<and> g_meetingFrequency g \<in> set meetingFrequencies
     \<and> g_meetingDay g \<in> set meetingDays)"

definition memberRoles :: "string list" where
  "memberRoles = [''member'', ''leader'', ''assistant'', ''admin'']"

definition attendanceStatuses :: "string list" where
  "attendanceStatuses = [''present'', ''absent'', ''excused'']"

definition validGroupMember :: "GroupMemberDoc \<Rightarrow> bool" where
  "validGroupMember m =
    (m_role m \<in> set memberRoles
     \<and> list_all (\<lambda>e. a_status e \<in> set attendanceStatuses) (m_attendance m))"

definition ROLES :: "string list" where
  "ROLES = [''admin'', ''user'', ''event_manager'', ''team_lead'', ''check_in_staff'',
            ''group_leader'', ''group_admin'']"

definition permissionNames :: "string list" where
  "permissionNames = [''manage_users'', ''manage_people'', ''manage_households'',
                      ''manage_events'', ''manage_teams'', ''manage_groups'',
                      ''manage_group_members'', ''view_people'', ''view_households'',
                      ''view_events'', ''view_groups'', ''perform_check_in'']"

definition teamNames :: "string list" where
  "teamNames = [''welcome'', ''cafe'', ''media'']"

definition validChurchUser :: "ChurchUserDoc \<Rightarrow> bool" where
  "validChurchUser u =
    (cu_username u \<noteq> [] \<and> cu_password u \<noteq> [] \<and> cu_role u \<in> set ROLES
     \<and> list_all (\<lambda>p. p \<in> set permissionNames) (cu_permissions u)
     \<and> list_all (\<lambda>t. t \<in> set teamNames) (cu_teamLeaderships u))"

section \<open>Cascade: deleting a group\<close>

text \<open>
  routes/group.js, \<open>DELETE /api/groups/:id\<close>. The four awaited writes, as the list of
  the stores they leave one after the other. The \<open>pre('remove')\<close> hook of
  models/group.js makes the first two of these writes again; it belongs to
  \<open>document.remove()\<close>, which the handler does not call.
\<close>

definition deleteGroup_writes :: "oid \<Rightarrow> db \<Rightarrow> db list" where
  "deleteGroup_writes gid s0 =
    (let s1 = s0\<lparr>subgroups := deleteMany (\<lambda>sg. sg_parentGroup sg = gid) (subgroups s0)\<rparr>;
         s2 = s1\<lparr>groupMembers := deleteMany (\<lambda>m. m_group m = gid) (groupMembers s1)\<rparr>;
         s3 = s2\<lparr>churchUsers :=
                updateMany (\<lambda>u. gid \<in> set (cu_groupLeaderships u))
                  (\<lambda>u. u\<lparr>cu_groupLeaderships := removeAll gid (cu_groupLeaderships u)\<rparr>)
                  (churchUsers s2)\<rparr>;
         s4 = s3\<lparr>groups := deleteOne (\<lambda>g. g_id g = gid) (groups s3)\<rparr>
     in [s1, s2, s3, s4])"

definition deleteGroup :: "req_user \<Rightarrow> oid \<Rightarrow> db \<Rightarrow> (error + string) \<times> db" where
  "deleteGroup user gid s =
    (if \<not> checkPermission ''manage_groups'' user then (Inl Unauthorized, s)
     else case findOne (\<lambda>g. g_id g = gid \<and> g_church g = u_church user) (groups s) of
            None \<Rightarrow> (Inl NotFound, s)
          | Some grp \<Rightarrow> (Inr ''Group deleted'', last (deleteGroup_writes gid s)))"

section \<open>Cascade: deleting a subgroup\<close>

text \<open>
  routes/subgroup.js, \<open>DELETE /api/subgroups/:id\<close>. The \<open>pre('remove')\<close> hook
  of models/subgroup.js makes the same \<open>updateMany\<close> on the group members as the
  handler's first write; it belongs to \<open>document.remove()\<close>, which the handler does
  not call.
\<close>

definition deleteSubgroup :: "req_user \<Rightarrow> oid \<Rightarrow> db \<Rightarrow> (error + string) \<times> db" where
  "deleteSubgroup user sid s =
    (case findOne (\<lambda>sg. sg_id sg = sid) (subgroups s) of
       None \<Rightarrow> (Inl NotFound, s)
     | Some subgroup \<Rightarrow>
         let isAdmin = (u_role user = ''admin'' \<or> ''manage_groups'' \<in> set (u_permissions user));
             isGroupLeader =
               js_includes (u_groupLeaderships user) (IdString (sg_parentGroup subgroup))
         in if \<not> isAdmin \<and> \<not> isGroupLeader then (Inl Unauthorized, s)
            else
              let s1 = s\<lparr>groupMembers :=
                         updateMany (\<lambda>m. m_subgroup m = Some sid) (\<lambda>m. m\<lparr>m_subgroup := None\<rparr>)
                           (groupMembers s)\<rparr>;
                  s2 = s1\<lparr>churchUsers :=
                         updateMany (\<lambda>u. sid \<in> set (cu_subgroupLeaderships u))
                           (\<lambda>u. u\<lparr>cu_subgroupLeaderships :=
                                  removeAll sid (cu_subgroupLeaderships u)\<rparr>)
                           (churchUsers s1)\<rparr>;
                  s3 = s2\<lparr>subgroups := deleteOne (\<lambda>sg. sg_id sg = sid) (subgroups s2)\<rparr>
              in (Inr ''Subgroup deleted'', s3))"

section \<open>Membership\<close>

text \<open>
  routes/group.js, \<open>POST /api/groups/:id/members\<close>. \<open>newId\<close> is the ObjectId
  generated for the new document and \<open>now\<close> the clock value behind the
  \<open>joinDate\<close> default. \<open>save\<close> validates the required \<open>person\<close> and
  \<open>church\<close> and the \<open>role\<close> enum (a \<open>ValidationError\<close>, answered 400);
  an insert under an \<open>_id\<close> already stored is a duplicate-key error (answered 500).
  The response is the stored document, without the populated names.
\<close>

record addMember_body =
  b_personId :: "oid option"
  b_subgroupId :: "oid option"
  b_role :: "string option"

definition addMember ::
  "req_user \<Rightarrow> oid \<Rightarrow> addMember_body \<Rightarrow> oid \<Rightarrow> int \<Rightarrow> db
   \<Rightarrow> (error + GroupMemberDoc option) \<times> db" where
  "addMember user gid body newId now s =
    (if \<not> authorizeGroupAccess user (IdString gid) then (Inl Unauthorized, s)
     else case findOne (\<lambda>m. Some (m_person m) = b_personId body \<and> m_group m = gid)
                 (groupMembers s) of
       Some existingMember \<Rightarrow> (Inl DuplicateMembership, s)
     | None \<Rightarrow>
         let role = (case b_role body of
                       None \<Rightarrow> ''member''
                     | Some r \<Rightarrow> if r = [] then ''member'' else r)
         in (case (b_personId body, u_church user) of
               (Some personId, Some church) \<Rightarrow>
                 if role \<notin> set memberRoles then (Inl ValidationError, s)
                 else if newId \<in> set (map m_id (groupMembers s)) then (Inl ServerError, s)
                 else
                   let newMember =
                         \<lparr>m_id = newId, m_person = personId, m_group = gid,
                          m_subgroup = b_subgroupId body, m_role = role, m_joinDate = now,
                          m_isActive = True, m_notes = None, m_attendance = [],
                          m_church = church\<rparr>;
                       s' = s\<lparr>groupMembers := groupMembers s @ [newMember]\<rparr>
                   in (Inr (findOne (\<lambda>m. m_id m = newId) (groupMembers s')), s')
             | _ \<Rightarrow> (Inl ValidationError, s)))"




text \<open>
  routes/subgroup.js, \<open>POST /api/subgroups/:id/members/:personId\<close>. The
  \<open>catch\<close> block answers every error of \<open>save\<close> with 500.
\<close>

definition addSubgroupMember ::
  "req_user \<Rightarrow> oid \<Rightarrow> oid \<Rightarrow> db \<Rightarrow> (error + GroupMemberDoc option) \<times> db" where
  "addSubgroupMember user sid personId s =
    (if \<not> authorizeSubgroupAccess user sid s then (Inl Unauthorized, s)
     else case findOne (\<lambda>sg. sg_id sg = sid) (subgroups s) of
       None \<Rightarrow> (Inl NotFound, s)
     | Some subgroup \<Rightarrow>
         (case findOne (\<lambda>m. m_person m = personId \<and> m_group m = sg_parentGroup subgroup)
                 (groupMembers s) of
            None \<Rightarrow> (Inl InvalidSubgroupAssignment, s)
          | Some groupMember \<Rightarrow>
              if \<not> validGroupMember (groupMember\<lparr>m_subgroup := Some sid\<rparr>)
              then (Inl ServerError, s)
              else
                let s' = s\<lparr>groupMembers :=
                           updateOne (\<lambda>m. m_id m = m_id groupMember)
                             (\<lambda>m. m\<lparr>m_subgroup := Some sid\<rparr>) (groupMembers s)\<rparr>
                in (Inr (findOne (\<lambda>m. m_id m = m_id groupMember) (groupMembers s')), s')))"


section \<open>Leadership\<close>

text \<open>
  models/churchUser.js, \<open>addGroupLeadership\<close>. The \<open>includes\<close> of a Mongoose
  array compares ObjectIds by value. The method always calls \<open>save\<close>, which validates
  the user and writes the pushed element; the \<open>pre('save')\<close> hook recomputes the
  permissions only when \<open>role\<close> was modified, which no handler modelled here does.
\<close>

definition addGroupLeadership :: "ChurchUserDoc \<Rightarrow> oid \<Rightarrow> db \<Rightarrow> error + db" where
  "addGroupLeadership user groupId s =
    (if \<not> validChurchUser user then Inl ValidationError
     else if groupId \<notin> set (cu_groupLeaderships user)
     then Inr (s\<lparr>churchUsers :=
                  updateOne (\<lambda>u. cu_id u = cu_id user)
                    (\<lambda>u. u\<lparr>cu_groupLeaderships := cu_groupLeaderships u @ [groupId]\<rparr>)
                    (churchUsers s)\<rparr>)
     else Inr s)"

text \<open>
  routes/churchUsers.js, \<open>POST /api/church-users/assign-group-leadership\<close>. The
  \<open>catch\<close> block answers a failed \<open>save\<close> with 400; a group already saved stays
  saved.
\<close>

definition assignGroupLeadership ::
  "req_user \<Rightarrow> oid \<Rightarrow> oid \<Rightarrow> db \<Rightarrow> (error + ChurchUserDoc option) \<times> db" where
  "assignGroupLeadership caller userId groupId s =
    (if \<not> checkPermission ''manage_groups'' caller then (Inl Unauthorized, s)
     else case findOne (\<lambda>u. cu_id u = userId) (churchUsers s) of
       None \<Rightarrow> (Inl NotFound, s)
     | Some user \<Rightarrow>
         (case findOne (\<lambda>g. g_id g = groupId) (groups s) of
            None \<Rightarrow> (Inl NotFound, s)
          | Some grp \<Rightarrow>
              if cu_person user \<notin> set (g_leaders grp) \<and> \<not> validGroup grp
              then (Inl ValidationError, s)
              else
                let s1 = (if cu_person user \<notin> set (g_leaders grp)
                          then s\<lparr>groups :=
                                   updateOne (\<lambda>g. g_id g = groupId)
                                     (\<lambda>g. g\<lparr>g_leaders := g_leaders g @ [cu_person user]\<rparr>)
                                     (groups s)\<rparr>
                          else s)
                in (case addGroupLeadership user groupId s1 of
                      Inl e \<Rightarrow> (Inl e, s1)
                    | Inr s2 \<Rightarrow>
                        (Inr (findOne (\<lambda>u. cu_id u = userId) (churchUsers s2)), s2))))"

text \<open>routes/churchUsers.js, \<open>POST /api/church-users/remove-group-leadership\<close>\<close>

definition removeGroupLeadership ::
  "req_user \<Rightarrow> oid \<Rightarrow> oid \<Rightarrow> db \<Rightarrow> (error + ChurchUserDoc option) \<times> db" where
  "removeGroupLeadership caller userId groupId s =
    (if \<not> checkPermission ''manage_groups'' caller then (Inl Unauthorized, s)
     else case findOne (\<lambda>u. cu_id u = userId) (churchUsers s) of
       None \<Rightarrow> (Inl NotFound, s)
     | Some user \<Rightarrow>
         (case findOne (\<lambda>g. g_id g = groupId) (groups s) of
            None \<Rightarrow> (Inl NotFound, s)
          | Some grp \<Rightarrow>
              if \<not> validGroup grp then (Inl ValidationError, s)
              else
                let s1 = s\<lparr>groups :=
                           updateOne (\<lambda>g. g_id g = groupId)
                             (\<lambda>g. g\<lparr>g_leaders :=
                                    filter (\<lambda>leaderId. leaderId \<noteq> cu_person user)
                                      (g_leaders grp)\<rparr>)
                             (groups s)\<rparr>
                in if \<not> validChurchUser user then (Inl ValidationError, s1)
                   else
                     let s2 = s1\<lparr>churchUsers :=
                                updateOne (\<lambda>u. cu_id u = userId)
                                  (\<lambda>u. u\<lparr>cu_groupLeaderships :=
                                         filter (\<lambda>leaderGroupId. leaderGroupId \<noteq> groupId)
                                           (cu_groupLeaderships user)\<rparr>)
                                  (churchUsers s1)\<rparr>
                     in (Inr (findOne (\<lambda>u. cu_id u = userId) (churchUsers s2)), s2)))"

text \<open>
  routes/group.js, \<open>PUT /api/groups/:id\<close>. \<open>name\<close>, \<open>meetingFrequency\<close>,
  \<open>meetingDay\<close> and \<open>leaders\<close> are set when truthy (an empty array is truthy),
  the other fields when not \<open>undefined\<close>. \<open>findOneAndUpdate\<close> applies the schema
  setters (\<open>trim\<close>) and runs no validators.
\<close>

record updateGroup_body =
  gb_name :: "string option"
  gb_description :: "string option"
  gb_purpose :: "string option"
  gb_meetingFrequency :: "string option"
  gb_customFrequency :: "string option"
  gb_meetingDay :: "string option"
  gb_meetingTime :: "string option"
  gb_meetingLocation :: "string option"
  gb_leaders :: "oid list option"
  gb_isActive :: "bool option"

definition groupFields :: "updateGroup_body \<Rightarrow> GroupDoc \<Rightarrow> GroupDoc" where
  "groupFields body g0 =
    (let g1 = (case gb_name body of
                 None \<Rightarrow> g0 | Some v \<Rightarrow> if v = [] then g0 else g0\<lparr>g_name := trim v\<rparr>);
         g2 = (case gb_description body of
                 None \<Rightarrow> g1 | Some v \<Rightarrow> g1\<lparr>g_description := Some (trim v)\<rparr>);
         g3 = (case gb_purpose body of
                 None \<Rightarrow> g2 | Some v \<Rightarrow> g2\<lparr>g_purpose := Some (trim v)\<rparr>);
         g4 = (case gb_meetingFrequency body of
                 None \<Rightarrow> g3 | Some v \<Rightarrow> if v = [] then g3 else g3\<lparr>g_meetingFrequency := v\<rparr>);
         g5 = (case gb_customFrequency body of
                 None \<Rightarrow> g4 | Some v \<Rightarrow> g4\<lparr>g_customFrequency := Some (trim v)\<rparr>);
         g6 = (case gb_meetingDay body of
                 None \<Rightarrow> g5 | Some v \<Rightarrow> if v = [] then g5 else g5\<lparr>g_meetingDay := v\<rparr>);
         g7 = (case gb_meetingTime body of
                 None \<Rightarrow> g6 | Some v \<Rightarrow> g6\<lparr>g_meetingTime := Some (trim v)\<rparr>);
         g8 = (case gb_meetingLocation body of
                 None \<Rightarrow> g7 | Some v \<Rightarrow> g7\<lparr>g_meetingLocation := Some (trim v)\<rparr>);
         g9 = (case gb_leaders body of
                 None \<Rightarrow> g8 | Some v \<Rightarrow> g8\<lparr>g_leaders := v\<rparr>);
         g10 = (case gb_isActive body of
                 None \<Rightarrow> g9 | Some v \<Rightarrow> g9\<lparr>g_isActive := v\<rparr>)
     in g10)"

definition updateGroup ::
  "req_user \<Rightarrow> oid \<Rightarrow> updateGroup_body \<Rightarrow> db \<Rightarrow> (error + GroupDoc) \<times> db" where
  "updateGroup user gid body s =
    (if \<not> authorizeGroupAccess user (IdString gid) then (Inl Unauthorized, s)
     else case findOne (\<lambda>g. g_id g = gid \<and> g_church g = u_church user) (groups s) of
       None \<Rightarrow> (Inl NotFound, s)
     | Some grp \<Rightarrow>
         (Inr (groupFields body grp),
          s\<lparr>groups :=
              updateOne (\<lambda>g. g_id g = gid \<and> g_church g = u_church user) (groupFields body)
                (groups s)\<rparr>))"

text \<open>
  The leadership mirror: a group is in a church user's \<open>groupLeaderships\<close> exactly
  when the user's person is among the group's \<open>leaders\<close>.
\<close>

definition leadershipMirror :: "db \<Rightarrow> bool" where
  "leadershipMirror s =
    list_all (\<lambda>u. list_all (\<lambda>g. (g_id g \<in> set (cu_groupLeaderships u))
                                  = (cu_person u \<in> set (g_leaders g)))
                     (groups s))
             (churchUsers s)"

section \<open>Attendance\<close>

text \<open>
  models/groupMember.js, \<open>recordAttendance\<close>, called on the document \<open>this\<close>
  loaded from the store: it pushes the entry and returns the result of \<open>save\<close>.
\<close>

definition recordAttendance ::
  "GroupMemberDoc \<Rightarrow> int \<Rightarrow> string \<Rightarrow> string \<Rightarrow> db \<Rightarrow> error + db" where
  "recordAttendance this date status notes s =
    (if \<not> validGroupMember
            (this\<lparr>m_attendance :=
                    m_attendance this @ [\<lparr>a_date = date, a_status = status, a_notes = notes\<rparr>]\<rparr>)
     then Inl ValidationError
     else Inr (s\<lparr>groupMembers :=
                  updateOne (\<lambda>m. m_id m = m_id this)
                    (\<lambda>m. m\<lparr>m_attendance :=
                           m_attendance m @ [\<lparr>a_date = date, a_status = status, a_notes = notes\<rparr>]\<rparr>)
                    (groupMembers s)\<rparr>))"

text \<open>
  routes/group.js, \<open>POST /api/groups/:id/attendance\<close>. \<open>ab_date\<close> is the parsed
  \<open>date\<close> of the body, \<open>None\<close> when the field is missing; \<open>ab_attendanceData\<close>
  is \<open>None\<close> when the field is missing or not an array. Each result pairs the
  \<open>memberId\<close> with \<open>success\<close>. A record without \<open>status\<close>, or a member that
  fails the validation with the pushed entry, makes \<open>save\<close> throw: the loop stops, the
  answer is 500 and the writes made so far stay.
\<close>

record attendanceRecord =
  r_memberId :: oid
  r_status :: "string option"
  r_notes :: "string option"

record attendance_body =
  ab_date :: "int option"
  ab_attendanceData :: "attendanceRecord list option"

fun groupAttendanceLoop ::
  "req_user \<Rightarrow> oid \<Rightarrow> int \<Rightarrow> attendanceRecord list \<Rightarrow> (oid \<times> bool) list \<Rightarrow> db
   \<Rightarrow> (error + (oid \<times> bool) list) \<times> db" where
  "groupAttendanceLoop user gid date [] results s = (Inr results, s)"
| "groupAttendanceLoop user gid date (r # rest) results s =
    (case findOne (\<lambda>m. m_id m = r_memberId r \<and> m_group m = gid
                        \<and> Some (m_church m) = u_church user) (groupMembers s) of
       None \<Rightarrow> groupAttendanceLoop user gid date rest (results @ [(r_memberId r, False)]) s
     | Some member \<Rightarrow>
         (case r_status r of
            None \<Rightarrow> (Inl ServerError, s)
          | Some status \<Rightarrow>
              let notes = (case r_notes r of
                             None \<Rightarrow> []
                           | Some n \<Rightarrow> if n = [] then [] else n)
              in if \<not> validGroupMember
                        (member\<lparr>m_attendance :=
                                  m_attendance member
                                  @ [\<lparr>a_date = date, a_status = status, a_notes = notes\<rparr>]\<rparr>)
                 then (Inl ServerError, s)
                 else
                   let s' = s\<lparr>groupMembers :=
                              updateOne (\<lambda>m. m_id m = m_id member)
                                (\<lambda>m. m\<lparr>m_attendance :=
                                       m_attendance m
                                       @ [\<lparr>a_date = date, a_status = status,
                                           a_notes = notes\<rparr>]\<rparr>)
                                (groupMembers s)\<rparr>
                   in groupAttendanceLoop user gid date rest
                        (results @ [(r_memberId r, True)]) s'))"

definition postGroupAttendance ::
  "req_user \<Rightarrow> oid \<Rightarrow> attendance_body \<Rightarrow> db \<Rightarrow> (error + (oid \<times> bool) list) \<times> db" where
  "postGroupAttendance user gid body s =
    (case (ab_date body, ab_attendanceData body) of
       (Some date, Some attendanceData) \<Rightarrow>
         if \<not> authorizeGroupAccess user (IdString gid) then (Inl Unauthorized, s)
         else groupAttendanceLoop user gid date attendanceData [] s
     | _ \<Rightarrow> (Inl BadRequest, s))"

text \<open>The rows of an attendance report.\<close>

record reportRow =
  row_memberId :: oid
  row_firstName :: string
  row_lastName :: string
  row_attendance :: "AttendanceEntry list"

text \<open>
  models/groupMember.js, \<open>getGroupAttendance\<close>: the aggregation pipeline.
  \<open>$match\<close> on the array path \<open>attendance.date\<close> with \<open>$gte\<close> and \<open>$lte\<close>
  keeps a member when some entry satisfies the one bound and some entry the other;
  \<open>$lookup\<close> with \<open>$unwind\<close> yields one row per stored person with the member's
  \<open>person\<close> id; \<open>$project\<close> filters the entries and keeps the member's
  \<open>_id\<close>. \<open>mongoose.Types.ObjectId(groupId)\<close> is the ObjectId of the route
  parameter.
\<close>

definition getGroupAttendance :: "oid \<Rightarrow> int \<Rightarrow> int \<Rightarrow> db \<Rightarrow> reportRow list" where
  "getGroupAttendance groupId startDate endDate s =
    concat (map
      (\<lambda>m. map (\<lambda>personData.
                  \<lparr>row_memberId = m_id m,
                   row_firstName = p_firstName personData,
                   row_lastName = p_lastName personData,
                   row_attendance =
                     filter (\<lambda>attend. startDate \<le> a_date attend \<and> a_date attend \<le> endDate)
                       (m_attendance m)\<rparr>)
             (filter (\<lambda>p. p_id p = m_person m) (people s)))
      (filter (\<lambda>m. m_group m = groupId
                    \<and> list_ex (\<lambda>e. startDate \<le> a_date e) (m_attendance m)
                    \<and> list_ex (\<lambda>e. a_date e \<le> endDate) (m_attendance m))
         (groupMembers s)))"

text \<open>routes/group.js, \<open>GET /api/groups/:id/attendance\<close>\<close>

definition getGroupAttendanceReport ::
  "req_user \<Rightarrow> oid \<Rightarrow> int option \<Rightarrow> int option \<Rightarrow> db \<Rightarrow> error + reportRow list" where
  "getGroupAttendanceReport user gid startDate endDate s =
    (case (startDate, endDate) of
       (Some sd, Some ed) \<Rightarrow>
         if \<not> authorizeGroupAccess user (IdString gid) then Inl Unauthorized
         else Inr (getGroupAttendance gid sd ed s)
     | _ \<Rightarrow> Inl BadRequest)"

text \<open>
  routes/subgroup.js, \<open>GET /api/subgroups/:id/attendance\<close>. A member whose person
  is not stored makes \<open>person.firstName\<close> throw, and the whole request answers 500.
\<close>

fun subgroupAttendanceRows ::
  "int \<Rightarrow> int \<Rightarrow> db \<Rightarrow> GroupMemberDoc list \<Rightarrow> error + reportRow list" where
  "subgroupAttendanceRows startDate endDate s [] = Inr []"
| "subgroupAttendanceRows startDate endDate s (member # rest) =
    (case findOne (\<lambda>p. p_id p = m_person member) (people s) of
       None \<Rightarrow> Inl ServerError
     | Some person \<Rightarrow>
         (case subgroupAttendanceRows startDate endDate s rest of
            Inl e \<Rightarrow> Inl e
          | Inr rows \<Rightarrow>
              Inr (\<lparr>row_memberId = m_id member,
                    row_firstName = p_firstName person,
                    row_lastName = p_lastName person,
                    row_attendance =
                      filter (\<lambda>entry. startDate \<le> a_date entry \<and> a_date entry \<le> endDate)
                        (m_attendance member)\<rparr> # rows)))"

definition getSubgroupAttendanceReport ::
  "req_user \<Rightarrow> oid \<Rightarrow> int option \<Rightarrow> int option \<Rightarrow> db \<Rightarrow> error + reportRow list" where
  "getSubgroupAttendanceReport user sid startDate endDate s =
    (case (startDate, endDate) of
       (Some sd, Some ed) \<Rightarrow>
         if \<not> authorizeSubgroupAccess user sid s then Inl Unauthorized
         else subgroupAttendanceRows sd ed s
                (filter (\<lambda>m. m_subgroup m = Some sid \<and> Some (m_church m) = u_church user)
                   (groupMembers s))
     | _ \<Rightarrow> Inl BadRequest)"

text \<open>
  The \<open>role\<close> of a request body that \<open>save\<close> accepts for a new member: absent or
  empty (the handler then takes \<open>'member'\<close>), or one of the enum.
\<close>

definition role_accepted :: "string option \<Rightarrow> bool" where
  "role_accepted r = (case r of None \<Rightarrow> True | Some v \<Rightarrow> v = [] \<or> v \<in> set memberRoles)"


text \<open>A request body of \<open>PUT /api/groups/:id\<close> that only carries \<open>leaders\<close>.\<close>

definition leadersOnly :: "oid list \<Rightarrow> updateGroup_body" where
  "leadersOnly ls = \<lparr>gb_name = None, gb_description = None, gb_purpose = None,
                      gb_meetingFrequency = None, gb_customFrequency = None,
                      gb_meetingDay = None, gb_meetingTime = None, gb_meetingLocation = None,
                      gb_leaders = Some ls, gb_isActive = None\<rparr>"

section \<open>A small store\<close>

text \<open>
  Group "Youth" (id 1) is led by person 11, who has the church user 50; its subgroup
  "Worship Team" has id 10. Group "Choir" (id 2) has the subgroup "Altos" (id 20).
  Person 12 is a member of Youth in the Worship Team, person 13 a member of Choir.
\<close>

definition ex_admin :: req_user where
  "ex_admin = \<lparr>u_id = 900, u_role = ''admin'', u_permissions = [''manage_groups''],
                u_groupLeaderships = [], u_subgroupLeaderships = [], u_church = Some 7\<rparr>"


definition youth :: GroupDoc where
  "youth = \<lparr>g_id = 1, g_name = ''Youth'', g_description = None, g_purpose = None,
             g_meetingFrequency = ''weekly'', g_customFrequency = None,
             g_meetingDay = ''sunday'', g_meetingTime = None, g_meetingLocation = None,
             g_isActive = True, g_leaders = [11], g_createdBy = 900, g_church = Some 7\<rparr>"

definition choir :: GroupDoc where
  "choir = \<lparr>g_id = 2, g_name = ''Choir'', g_description = None, g_purpose = None,
             g_meetingFrequency = ''weekly'', g_customFrequency = None,
             g_meetingDay = ''sunday'', g_meetingTime = None, g_meetingLocation = None,
             g_isActive = True, g_leaders = [], g_createdBy = 900, g_church = Some 7\<rparr>"

definition worshipTeam :: SubgroupDoc where
  "worshipTeam = \<lparr>sg_id = 10, sg_name = ''Worship Team'', sg_description = None,
                   sg_parentGroup = 1, sg_leaders = [], sg_meetingDay = ''sunday'',
                   sg_meetingTime = None, sg_meetingLocation = None, sg_isActive = True,
                   sg_createdBy = 900, sg_church = 7\<rparr>"

definition altos :: SubgroupDoc where
  "altos = \<lparr>sg_id = 20, sg_name = ''Altos'', sg_description = None,
             sg_parentGroup = 2, sg_leaders = [], sg_meetingDay = ''sunday'',
             sg_meetingTime = None, sg_meetingLocation = None, sg_isActive = True,
             sg_createdBy = 900, sg_church = 7\<rparr>"

definition member100 :: GroupMemberDoc where
  "member100 = \<lparr>m_id = 100, m_person = 12, m_group = 1, m_subgroup = Some 10,
                 m_role = ''member'', m_joinDate = 0, m_isActive = True, m_notes = None,
                 m_attendance = [\<lparr>a_date = 5, a_status = ''present'', a_notes = []\<rparr>],
                 m_church = 7\<rparr>"

definition member101 :: GroupMemberDoc where
  "member101 = \<lparr>m_id = 101, m_person = 13, m_group = 2, m_subgroup = None,
                 m_role = ''member'', m_joinDate = 0, m_isActive = True, m_notes = None,
                 m_attendance = [], m_church = 7\<rparr>"

definition churchUser50 :: ChurchUserDoc where
  "churchUser50 = \<lparr>cu_id = 50, cu_person = 11, cu_username = ''ann'', cu_password = ''pw'',
                    cu_role = ''group_leader'',
                    cu_permissions = [''manage_group_members'', ''view_groups'', ''view_people''],
                    cu_teamLeaderships = [], cu_groupLeaderships = [1],
                    cu_subgroupLeaderships = []\<rparr>"

definition ex_people :: "PersonDoc list" where
  "ex_people = [\<lparr>p_id = 11, p_firstName = ''Ann'', p_lastName = ''Lee''\<rparr>,
                \<lparr>p_id = 12, p_firstName = ''Ben'', p_lastName = ''Ray''\<rparr>,
                \<lparr>p_id = 13, p_firstName = ''Cat'', p_lastName = ''Fox''\<rparr>]"

definition ex_db :: db where
  "ex_db = \<lparr>groups = [youth, choir], subgroups = [worshipTeam, altos],
             groupMembers = [member100, member101], churchUsers = [churchUser50],
             people = ex_people\<rparr>"

text \<open>Records that the requests below create.\<close>

definition member102 :: GroupMemberDoc where
  "member102 = \<lparr>m_id = 102, m_person = 12, m_group = 2, m_subgroup = None,
                 m_role = ''member'', m_joinDate = 0, m_isActive = True, m_notes = None,
                 m_attendance = [], m_church = 7\<rparr>"

definition member103 :: GroupMemberDoc where
  "member103 = \<lparr>m_id = 103, m_person = 13, m_group = 1, m_subgroup = Some 10,
                 m_role = ''member'', m_joinDate = 0, m_isActive = True, m_notes = None,
                 m_attendance = [], m_church = 7\<rparr>"

definition member100_twice :: GroupMemberDoc where
  "member100_twice =
     member100\<lparr>m_attendance :=
       [\<lparr>a_date = 5, a_status = ''present'', a_notes = []\<rparr>,
        \<lparr>a_date = 7, a_status = ''present'', a_notes = []\<rparr>,
        \<lparr>a_date = 7, a_status = ''present'', a_notes = []\<rparr>]\<rparr>"

lemmas ex_defs = ex_db_def ex_admin_def youth_def choir_def worshipTeam_def altos_def
  member100_def member101_def churchUser50_def ex_people_def

section \<open>Facts about the collection operations\<close>

lemma findOne_Some_set: "findOne P xs = Some x \<Longrightarrow> x \<in> set xs \<and> P x"
  unfolding findOne_def by (induction xs) (auto split: if_splits)

lemma deleteOne_distinct:
  "distinct (map f xs) \<Longrightarrow> \<forall>x \<in> set (deleteOne (\<lambda>x. f x = k) xs). f x \<noteq> k"
proof (induction xs)
  case Nil
  then show ?case by simp
next
  case (Cons a xs)
  show ?case
  proof (cases "f a = k")
    case True
    with Cons.prems show ?thesis by (force simp: image_iff)
  next
    case False
    with Cons show ?thesis by simp
  qed
qed

lemma findOne_None_iff: "findOne P xs = None \<longleftrightarrow> (\<forall>x \<in> set xs. \<not> P x)"
  unfolding findOne_def by (auto simp: find_None_iff)

lemma findOne_append_new:
  "\<forall>x \<in> set xs. \<not> P x \<Longrightarrow> P y \<Longrightarrow> findOne P (xs @ [y]) = Some y"
  unfolding findOne_def by (induction xs) auto

lemma length_updateOne: "length (updateOne P f xs) = length xs"
  by (induction xs) auto

lemma findOne_updateOne:
  "(\<And>x. P x \<Longrightarrow> P (h x)) \<Longrightarrow> findOne P (updateOne P h xs) = map_option h (findOne P xs)"
  unfolding findOne_def by (induction xs) auto


lemma count_list_distinct: "distinct xs \<Longrightarrow> x \<in> set xs \<Longrightarrow> count_list xs x = 1"
  by (induction xs) (auto simp: count_list_0_iff)

lemma count_list_snoc_new: "x \<notin> set xs \<Longrightarrow> count_list (xs @ [x]) x = 1"
  by (induction xs) auto

lemma count_list_push_if_absent:
  "distinct xs \<Longrightarrow> count_list (if x \<in> set xs then xs else xs @ [x]) x = 1"
  by (simp add: count_list_distinct count_list_snoc_new)

lemma updateOne_keeps_or_maps:
  "x \<in> set xs \<Longrightarrow> x \<in> set (updateOne Q h xs) \<or> h x \<in> set (updateOne Q h xs)"
  by (induction xs) auto

lemma findOne_after_updateOne:
  assumes x: "x \<in> set xs" and px: "P x" and keep: "\<And>y. P (h y) = P y"
  shows "\<exists>y. findOne P (updateOne Q h xs) = Some y \<and> P y"
proof -
  from updateOne_keeps_or_maps [OF x, of Q h] px keep
  have "\<exists>z \<in> set (updateOne Q h xs). P z" by auto
  then have "findOne P (updateOne Q h xs) \<noteq> None"
    by (simp add: findOne_None_iff)
  then obtain y where y: "findOne P (updateOne Q h xs) = Some y" by auto
  with findOne_Some_set [OF y] show ?thesis by simp
qed

section \<open>Deleting a group\<close>

text \<open>
  C1. When \<open>DELETE /api/groups/:id\<close> succeeds on a store whose groups have distinct
  ids, the store it leaves has no subgroup with \<open>parentGroup = gid\<close>, no group member
  with \<open>group = gid\<close>, no church user with \<open>gid\<close> in \<open>groupLeaderships\<close> and
  no group with id \<open>gid\<close>. The handler makes four writes; after the third the
  dependent records are already in their final state while the groups collection is
  still the original one, with the group in it: the group is deleted last.
\<close>

theorem deleteGroup_cascade:
  assumes ok: "deleteGroup user gid s = (Inr msg, s')"
    and ids: "distinct (map g_id (groups s))"
  shows "(\<forall>sg \<in> set (subgroups s'). sg_parentGroup sg \<noteq> gid)
       \<and> (\<forall>m \<in> set (groupMembers s'). m_group m \<noteq> gid)
       \<and> (\<forall>u \<in> set (churchUsers s'). gid \<notin> set (cu_groupLeaderships u))
       \<and> (\<forall>g \<in> set (groups s'). g_id g \<noteq> gid)
       \<and> (\<exists>s1 s2 s3. deleteGroup_writes gid s = [s1, s2, s3, s']
            \<and> groups s1 = groups s \<and> groups s2 = groups s \<and> groups s3 = groups s
            \<and> (\<exists>g \<in> set (groups s3). g_id g = gid)
            \<and> subgroups s3 = subgroups s' \<and> groupMembers s3 = groupMembers s'
            \<and> churchUsers s3 = churchUsers s')"
proof -
  from ok obtain g where
    found: "findOne (\<lambda>g. g_id g = gid \<and> g_church g = u_church user) (groups s) = Some g"
    and s': "s' = last (deleteGroup_writes gid s)"
    by (auto simp: deleteGroup_def split: if_splits option.splits)
  from found have gin: "g \<in> set (groups s)" "g_id g = gid"
    using findOne_Some_set by fastforce+
  have gone: "\<forall>x \<in> set (deleteOne (\<lambda>g. g_id g = gid) (groups s)). g_id x \<noteq> gid"
    using ids by (rule deleteOne_distinct)
  show ?thesis
    using gin gone unfolding s' deleteGroup_writes_def Let_def
    by (auto simp: deleteMany_def updateMany_def)
qed

theorem deleteGroup_cascade_witness:
  "deleteGroup ex_admin 1 ex_db =
     (Inr ''Group deleted'',
      ex_db\<lparr>groups := [choir], subgroups := [altos], groupMembers := [member101],
            churchUsers := [churchUser50\<lparr>cu_groupLeaderships := []\<rparr>]\<rparr>)
   \<and> distinct (map g_id (groups ex_db))
   \<and> list_all (\<lambda>g. g_id g \<noteq> 1) [choir]
   \<and> list_all (\<lambda>sg. sg_parentGroup sg \<noteq> 1) [altos]
   \<and> list_all (\<lambda>m. m_group m \<noteq> 1) [member101]"
proof -
  let ?s' = "ex_db\<lparr>groups := [choir], subgroups := [altos], groupMembers := [member101],
            churchUsers := [churchUser50\<lparr>cu_groupLeaderships := []\<rparr>]\<rparr>"
  have run: "deleteGroup ex_admin 1 ex_db = (Inr ''Group deleted'', ?s')"
    by (simp add: deleteGroup_def checkPermission_def hasPermission_def PERMISSIONS_def
        findOne_def deleteGroup_writes_def deleteMany_def updateMany_def ex_defs)
  have ids: "distinct (map g_id (groups ex_db))"
    by (simp add: ex_defs)
  from deleteGroup_cascade [OF run ids] show ?thesis
    using run ids by (simp add: list_all_iff)
qed

section \<open>Deleting a subgroup\<close>

text \<open>
  C2. When \<open>DELETE /api/subgroups/:id\<close> succeeds, the group members are the same
  records in the same order; a member that referenced the subgroup has its
  \<open>subgroup\<close> cleared and every other field as before (\<open>group\<close>, \<open>person\<close>,
  \<open>role\<close> and \<open>attendance\<close> among them), and every other member is unchanged.
\<close>

theorem deleteSubgroup_keeps_members:
  assumes ok: "deleteSubgroup user sid s = (Inr msg, s')"
  shows "length (groupMembers s') = length (groupMembers s)
       \<and> (\<forall>i < length (groupMembers s).
            groupMembers s' ! i =
              (groupMembers s ! i)\<lparr>m_subgroup :=
                 if m_subgroup (groupMembers s ! i) = Some sid then None
                 else m_subgroup (groupMembers s ! i)\<rparr>
            \<and> m_group (groupMembers s' ! i) = m_group (groupMembers s ! i)
            \<and> m_person (groupMembers s' ! i) = m_person (groupMembers s ! i)
            \<and> m_role (groupMembers s' ! i) = m_role (groupMembers s ! i)
            \<and> m_attendance (groupMembers s' ! i) = m_attendance (groupMembers s ! i))"
proof -
  from ok have ms: "groupMembers s' =
      updateMany (\<lambda>m. m_subgroup m = Some sid) (\<lambda>m. m\<lparr>m_subgroup := None\<rparr>) (groupMembers s)"
    by (auto simp: deleteSubgroup_def Let_def split: option.splits if_splits)
  show ?thesis unfolding ms updateMany_def by simp
qed

theorem deleteSubgroup_keeps_members_witness:
  "deleteSubgroup ex_admin 10 ex_db =
     (Inr ''Subgroup deleted'',
      ex_db\<lparr>subgroups := [altos],
            groupMembers := [member100\<lparr>m_subgroup := None\<rparr>, member101]\<rparr>)
   \<and> m_subgroup (groupMembers ex_db ! 0) = Some 10
   \<and> m_subgroup ([member100\<lparr>m_subgroup := None\<rparr>, member101] ! 0) = None
   \<and> m_group ([member100\<lparr>m_subgroup := None\<rparr>, member101] ! 0) = 1"
proof -
  let ?s' = "ex_db\<lparr>subgroups := [altos],
            groupMembers := [member100\<lparr>m_subgroup := None\<rparr>, member101]\<rparr>"
  have run: "deleteSubgroup ex_admin 10 ex_db = (Inr ''Subgroup deleted'', ?s')"
    by (simp add: deleteSubgroup_def findOne_def updateMany_def ex_defs)
  from deleteSubgroup_keeps_members [OF run] show ?thesis
    using run by (simp add: ex_defs)
qed

section \<open>Adding a member\<close>

lemma addMember_duplicate:
  assumes auth: "authorizeGroupAccess user (IdString gid)"
    and person: "b_personId body = Some p"
    and ex: "\<exists>m \<in> set (groupMembers s). m_person m = p \<and> m_group m = gid"
  shows "addMember user gid body newId now s = (Inl DuplicateMembership, s)"
proof -
  have "findOne (\<lambda>m. Some (m_person m) = b_personId body \<and> m_group m = gid) (groupMembers s) \<noteq> None"
    using ex person by (auto simp: findOne_None_iff)
  then show ?thesis using auth
    by (auto simp: addMember_def split: option.splits)
qed

lemma addMember_creates:
  assumes auth: "authorizeGroupAccess user (IdString gid)"
    and person: "b_personId body = Some p"
    and none: "\<forall>m \<in> set (groupMembers s). \<not> (m_person m = p \<and> m_group m = gid)"
    and church: "u_church user = Some c"
    and role: "role_accepted (b_role body)"
    and fresh: "newId \<notin> set (map m_id (groupMembers s))"
  shows "\<exists>m. addMember user gid body newId now s
               = (Inr (Some m), s\<lparr>groupMembers := groupMembers s @ [m]\<rparr>)
           \<and> m_id m = newId \<and> m_person m = p \<and> m_group m = gid
           \<and> m_subgroup m = b_subgroupId body \<and> m_attendance m = []"
proof -
  have nf: "findOne (\<lambda>m. Some (m_person m) = b_personId body \<and> m_group m = gid) (groupMembers s) = None"
    using none person by (auto simp: findOne_None_iff)
  have fr: "\<forall>x \<in> set (groupMembers s). \<not> (m_id x = newId)"
    using fresh by auto
  show ?thesis
    using auth person church role fresh nf
    by (auto simp: addMember_def Let_def role_accepted_def memberRoles_def
             findOne_append_new [OF fr]
             split: option.splits)
qed

text \<open>
  C3. \<open>POST /api/groups/:id/members\<close> for a caller who passes the access check and a
  body that names person \<open>p\<close>. When a membership of \<open>p\<close> in the group is stored, the
  call answers \<open>DuplicateMembership\<close> and leaves the store as it is. When none is
  stored (and the caller's token carries a church, the role is accepted and the new id is
  fresh), the call appends exactly one record, for \<open>p\<close> and the group, and every later
  call for the same pair on that store, by any caller who passes the check, answers
  \<open>DuplicateMembership\<close> and changes nothing.
\<close>

theorem addMember_at_most_once:
  assumes auth: "authorizeGroupAccess user (IdString gid)"
    and person: "b_personId body = Some p"
  shows "((\<exists>m \<in> set (groupMembers s). m_person m = p \<and> m_group m = gid) \<longrightarrow>
            addMember user gid body newId now s = (Inl DuplicateMembership, s))
       \<and> ((\<forall>m \<in> set (groupMembers s). \<not> (m_person m = p \<and> m_group m = gid)) \<longrightarrow>
            u_church user = Some c \<longrightarrow> role_accepted (b_role body) \<longrightarrow>
            newId \<notin> set (map m_id (groupMembers s)) \<longrightarrow>
            (\<exists>m. addMember user gid body newId now s
                    = (Inr (Some m), s\<lparr>groupMembers := groupMembers s @ [m]\<rparr>)
                \<and> m_id m = newId \<and> m_person m = p \<and> m_group m = gid
                \<and> (\<forall>user2 body2 newId2 now2.
                      authorizeGroupAccess user2 (IdString gid) \<longrightarrow>
                      b_personId body2 = Some p \<longrightarrow>
                      addMember user2 gid body2 newId2 now2
                          (s\<lparr>groupMembers := groupMembers s @ [m]\<rparr>)
                        = (Inl DuplicateMembership,
                           s\<lparr>groupMembers := groupMembers s @ [m]\<rparr>))))"
proof (intro conjI impI)
  assume "\<exists>m \<in> set (groupMembers s). m_person m = p \<and> m_group m = gid"
  with auth person show "addMember user gid body newId now s = (Inl DuplicateMembership, s)"
    by (rule addMember_duplicate)
next
  assume none: "\<forall>m \<in> set (groupMembers s). \<not> (m_person m = p \<and> m_group m = gid)"
    and church: "u_church user = Some c"
    and role: "role_accepted (b_role body)"
    and fresh: "newId \<notin> set (map m_id (groupMembers s))"
  from addMember_creates [OF auth person none church role fresh, of now]
  obtain m where m: "addMember user gid body newId now s
               = (Inr (Some m), s\<lparr>groupMembers := groupMembers s @ [m]\<rparr>)"
    "m_id m = newId" "m_person m = p" "m_group m = gid"
    by blast
  have again: "addMember user2 gid body2 newId2 now2 (s\<lparr>groupMembers := groupMembers s @ [m]\<rparr>)
        = (Inl DuplicateMembership, s\<lparr>groupMembers := groupMembers s @ [m]\<rparr>)"
    if "authorizeGroupAccess user2 (IdString gid)" "b_personId body2 = Some p"
    for user2 body2 newId2 now2
    using that m(3,4) by (intro addMember_duplicate) auto
  show "\<exists>m. addMember user gid body newId now s
                    = (Inr (Some m), s\<lparr>groupMembers := groupMembers s @ [m]\<rparr>)
                \<and> m_id m = newId \<and> m_person m = p \<and> m_group m = gid
                \<and> (\<forall>user2 body2 newId2 now2.
                      authorizeGroupAccess user2 (IdString gid) \<longrightarrow>
                      b_personId body2 = Some p \<longrightarrow>
                      addMember user2 gid body2 newId2 now2
                          (s\<lparr>groupMembers := groupMembers s @ [m]\<rparr>)
                        = (Inl DuplicateMembership,
                           s\<lparr>groupMembers := groupMembers s @ [m]\<rparr>))"
    using m again by blast
qed

theorem addMember_at_most_once_witness:
  "authorizeGroupAccess ex_admin (IdString 2)
   \<and> addMember ex_admin 2 \<lparr>b_personId = Some 12, b_subgroupId = None, b_role = None\<rparr> 102 0 ex_db
       = (Inr (Some member102), ex_db\<lparr>groupMembers := groupMembers ex_db @ [member102]\<rparr>)
   \<and> addMember ex_admin 2 \<lparr>b_personId = Some 12, b_subgroupId = None, b_role = None\<rparr> 103 1
         (ex_db\<lparr>groupMembers := groupMembers ex_db @ [member102]\<rparr>)
       = (Inl DuplicateMembership, ex_db\<lparr>groupMembers := groupMembers ex_db @ [member102]\<rparr>)
   \<and> addMember ex_admin 2 \<lparr>b_personId = Some 13, b_subgroupId = None, b_role = None\<rparr> 102 0 ex_db
       = (Inl DuplicateMembership, ex_db)"
proof -
  let ?b = "\<lparr>b_personId = Some 12, b_subgroupId = None, b_role = None\<rparr>"
  let ?b' = "\<lparr>b_personId = Some 13, b_subgroupId = None, b_role = None\<rparr>"
  have auth: "authorizeGroupAccess ex_admin (IdString 2)"
    by (simp add: authorizeGroupAccess_def ex_admin_def)
  have none: "\<forall>m \<in> set (groupMembers ex_db). \<not> (m_person m = 12 \<and> m_group m = 2)"
    by (simp add: ex_defs)
  have some: "\<exists>m \<in> set (groupMembers ex_db). m_person m = 13 \<and> m_group m = 2"
    by (simp add: ex_defs)
  have church: "u_church ex_admin = Some 7"
    by (simp add: ex_admin_def)
  have role: "role_accepted (b_role ?b)"
    by (simp add: role_accepted_def)
  have fresh: "102 \<notin> set (map m_id (groupMembers ex_db))"
    by (simp add: ex_defs)
  have run: "addMember ex_admin 2 ?b 102 0 ex_db
       = (Inr (Some member102), ex_db\<lparr>groupMembers := groupMembers ex_db @ [member102]\<rparr>)"
    using auth by (simp add: addMember_def findOne_def memberRoles_def member102_def Let_def ex_defs)
  from addMember_at_most_once [OF auth, of ?b 12 ex_db 102 0 7] none church role fresh run auth
  have second: "addMember ex_admin 2 ?b 103 1
         (ex_db\<lparr>groupMembers := groupMembers ex_db @ [member102]\<rparr>)
       = (Inl DuplicateMembership, ex_db\<lparr>groupMembers := groupMembers ex_db @ [member102]\<rparr>)"
    by auto
  from addMember_at_most_once [OF auth, of ?b' 13 ex_db 102 0 7] some
  have dup: "addMember ex_admin 2 ?b' 102 0 ex_db = (Inl DuplicateMembership, ex_db)"
    by simp
  from auth run second dup show ?thesis by simp
qed

text \<open>
  The claim C4 read on \<open>POST /api/groups/:id/members\<close>: person 13 has no membership
  in group 1, the parent group of subgroup 10, and the call that names subgroup 10 still
  succeeds and stores the new record with that subgroup.
\<close>

theorem addMember_subgroup_unchecked_counterexample:
  "findOne (\<lambda>sg. sg_id sg = 10) (subgroups ex_db) = Some worshipTeam
   \<and> sg_parentGroup worshipTeam = 1
   \<and> findOne (\<lambda>m. m_person m = 13 \<and> m_group m = 1) (groupMembers ex_db) = None
   \<and> addMember ex_admin 1 \<lparr>b_personId = Some 13, b_subgroupId = Some 10, b_role = None\<rparr> 103 0
        ex_db
       = (Inr (Some member103), ex_db\<lparr>groupMembers := groupMembers ex_db @ [member103]\<rparr>)"
  by (simp add: addMember_def authorizeGroupAccess_def findOne_def memberRoles_def
      member103_def Let_def ex_defs)

text \<open>
  C4, amended. The membership in the parent group is checked by
  \<open>POST /api/subgroups/:id/members/:personId\<close>: for a caller who passes the access
  check and a stored subgroup, the call answers \<open>InvalidSubgroupAssignment\<close> and leaves
  the store as it is when the person has no group member record in the subgroup's parent
  group. When the person has such a record, the call does not answer
  \<open>InvalidSubgroupAssignment\<close> and creates no record, and it succeeds when the stored
  members are valid. \<open>POST /api/groups/:id/members\<close> never answers
  \<open>InvalidSubgroupAssignment\<close>.
\<close>

theorem addSubgroupMember_requires_parent_membership:
  assumes auth: "authorizeSubgroupAccess user sid s"
    and sg: "findOne (\<lambda>sg. sg_id sg = sid) (subgroups s) = Some subgroup"
  shows "((\<forall>m \<in> set (groupMembers s).
              \<not> (m_person m = p \<and> m_group m = sg_parentGroup subgroup)) \<longrightarrow>
            addSubgroupMember user sid p s = (Inl InvalidSubgroupAssignment, s))
       \<and> ((\<exists>m \<in> set (groupMembers s).
              m_person m = p \<and> m_group m = sg_parentGroup subgroup) \<longrightarrow>
            fst (addSubgroupMember user sid p s) \<noteq> Inl InvalidSubgroupAssignment
            \<and> length (groupMembers (snd (addSubgroupMember user sid p s)))
                = length (groupMembers s)
            \<and> (list_all validGroupMember (groupMembers s) \<longrightarrow>
                 (\<exists>r s'. addSubgroupMember user sid p s = (Inr r, s'))))
       \<and> fst (addMember user2 gid body newId now s) \<noteq> Inl InvalidSubgroupAssignment"
proof (intro conjI impI)
  assume "\<forall>m \<in> set (groupMembers s). \<not> (m_person m = p \<and> m_group m = sg_parentGroup subgroup)"
  then have "findOne (\<lambda>m. m_person m = p \<and> m_group m = sg_parentGroup subgroup)
               (groupMembers s) = None"
    by (simp add: findOne_None_iff)
  with auth sg show "addSubgroupMember user sid p s = (Inl InvalidSubgroupAssignment, s)"
    by (simp add: addSubgroupMember_def)
next
  assume ex: "\<exists>m \<in> set (groupMembers s). m_person m = p \<and> m_group m = sg_parentGroup subgroup"
  then obtain gm where gm:
    "findOne (\<lambda>m. m_person m = p \<and> m_group m = sg_parentGroup subgroup)
               (groupMembers s) = Some gm"
    using findOne_None_iff [of "\<lambda>m. m_person m = p \<and> m_group m = sg_parentGroup subgroup"
        "groupMembers s"]
    by (cases "findOne (\<lambda>m. m_person m = p \<and> m_group m = sg_parentGroup subgroup)
               (groupMembers s)") auto
  from auth sg gm
  show "fst (addSubgroupMember user sid p s) \<noteq> Inl InvalidSubgroupAssignment"
    by (simp add: addSubgroupMember_def Let_def)
  from auth sg gm
  show "length (groupMembers (snd (addSubgroupMember user sid p s))) = length (groupMembers s)"
    by (simp add: addSubgroupMember_def Let_def length_updateOne)
  assume "list_all validGroupMember (groupMembers s)"
  with findOne_Some_set [OF gm] have "validGroupMember gm"
    by (simp add: list_all_iff)
  then have "validGroupMember (gm\<lparr>m_subgroup := Some sid\<rparr>)"
    by (simp add: validGroupMember_def)
  with auth sg gm show "\<exists>r s'. addSubgroupMember user sid p s = (Inr r, s')"
    by (simp add: addSubgroupMember_def Let_def)
next
  show "fst (addMember user2 gid body newId now s) \<noteq> Inl InvalidSubgroupAssignment"
    by (auto simp: addMember_def Let_def split: option.splits)
qed

theorem addSubgroupMember_requires_parent_membership_witness:
  "authorizeSubgroupAccess ex_admin 20 ex_db
   \<and> findOne (\<lambda>sg. sg_id sg = 20) (subgroups ex_db) = Some altos
   \<and> addSubgroupMember ex_admin 20 12 ex_db = (Inl InvalidSubgroupAssignment, ex_db)
   \<and> addSubgroupMember ex_admin 20 13 ex_db
       = (Inr (Some (member101\<lparr>m_subgroup := Some 20\<rparr>)),
          ex_db\<lparr>groupMembers := [member100, member101\<lparr>m_subgroup := Some 20\<rparr>]\<rparr>)"
proof -
  have auth: "authorizeSubgroupAccess ex_admin 20 ex_db"
    by (simp add: authorizeSubgroupAccess_def ex_admin_def)
  have sg: "findOne (\<lambda>sg. sg_id sg = 20) (subgroups ex_db) = Some altos"
    by (simp add: findOne_def ex_defs)
  have none: "\<forall>m \<in> set (groupMembers ex_db).
                \<not> (m_person m = 12 \<and> m_group m = sg_parentGroup altos)"
    by (simp add: ex_defs)
  from addSubgroupMember_requires_parent_membership [OF auth sg, of 12] none
  have fails: "addSubgroupMember ex_admin 20 12 ex_db = (Inl InvalidSubgroupAssignment, ex_db)"
    by blast
  have works: "addSubgroupMember ex_admin 20 13 ex_db
       = (Inr (Some (member101\<lparr>m_subgroup := Some 20\<rparr>)),
          ex_db\<lparr>groupMembers := [member100, member101\<lparr>m_subgroup := Some 20\<rparr>]\<rparr>)"
    using auth
    by (simp add: addSubgroupMember_def findOne_def Let_def validGroupMember_def
        memberRoles_def ex_defs)
  from auth sg fails works show ?thesis by simp
qed

section \<open>Assigning a subgroup\<close>







section \<open>Group leadership\<close>

lemma assignGroupLeadership_effect:
  assumes perm: "checkPermission ''manage_groups'' caller"
    and u: "findOne (\<lambda>u. cu_id u = userId) (churchUsers s) = Some user"
    and g: "findOne (\<lambda>g. g_id g = groupId) (groups s) = Some grp"
    and vu: "validChurchUser user"
    and vg: "cu_person user \<notin> set (g_leaders grp) \<Longrightarrow> validGroup grp"
  shows "\<exists>s'. assignGroupLeadership caller userId groupId s
             = (Inr (Some (if groupId \<in> set (cu_groupLeaderships user) then user
                           else user\<lparr>cu_groupLeaderships :=
                                       cu_groupLeaderships user @ [groupId]\<rparr>)), s')
          \<and> findOne (\<lambda>u. cu_id u = userId) (churchUsers s')
             = Some (if groupId \<in> set (cu_groupLeaderships user) then user
                     else user\<lparr>cu_groupLeaderships := cu_groupLeaderships user @ [groupId]\<rparr>)
          \<and> findOne (\<lambda>g. g_id g = groupId) (groups s')
             = Some (if cu_person user \<in> set (g_leaders grp) then grp
                     else grp\<lparr>g_leaders := g_leaders grp @ [cu_person user]\<rparr>)"
proof -
  from u have uid: "cu_id user = userId"
    using findOne_Some_set by fastforce
  have uu: "findOne (\<lambda>u. cu_id u = userId)
              (updateOne (\<lambda>u. cu_id u = userId)
                 (\<lambda>u. u\<lparr>cu_groupLeaderships := cu_groupLeaderships u @ [groupId]\<rparr>) (churchUsers s))
            = Some (user\<lparr>cu_groupLeaderships := cu_groupLeaderships user @ [groupId]\<rparr>)"
    using u by (subst findOne_updateOne) simp_all
  have gg: "findOne (\<lambda>g. g_id g = groupId)
              (updateOne (\<lambda>g. g_id g = groupId)
                 (\<lambda>g. g\<lparr>g_leaders := g_leaders g @ [cu_person user]\<rparr>) (groups s))
            = Some (grp\<lparr>g_leaders := g_leaders grp @ [cu_person user]\<rparr>)"
    using g by (subst findOne_updateOne) simp_all
  show ?thesis
    using perm u g uu gg uid vu vg
    by (simp add: assignGroupLeadership_def addGroupLeadership_def Let_def)
qed

lemma removeGroupLeadership_effect:
  assumes perm: "checkPermission ''manage_groups'' caller"
    and u: "findOne (\<lambda>u. cu_id u = userId) (churchUsers s) = Some user"
    and g: "findOne (\<lambda>g. g_id g = groupId) (groups s) = Some grp"
    and vu: "validChurchUser user"
    and vg: "validGroup grp"
  shows "\<exists>s'. removeGroupLeadership caller userId groupId s
             = (Inr (Some (user\<lparr>cu_groupLeaderships :=
                                   filter (\<lambda>i. i \<noteq> groupId) (cu_groupLeaderships user)\<rparr>)), s')
          \<and> findOne (\<lambda>u. cu_id u = userId) (churchUsers s')
             = Some (user\<lparr>cu_groupLeaderships :=
                            filter (\<lambda>i. i \<noteq> groupId) (cu_groupLeaderships user)\<rparr>)
          \<and> findOne (\<lambda>g. g_id g = groupId) (groups s')
             = Some (grp\<lparr>g_leaders := filter (\<lambda>i. i \<noteq> cu_person user) (g_leaders grp)\<rparr>)"
proof -
  have uu: "findOne (\<lambda>u. cu_id u = userId)
              (updateOne (\<lambda>u. cu_id u = userId)
                 (\<lambda>u. u\<lparr>cu_groupLeaderships :=
                          filter (\<lambda>i. i \<noteq> groupId) (cu_groupLeaderships user)\<rparr>) (churchUsers s))
            = Some (user\<lparr>cu_groupLeaderships :=
                            filter (\<lambda>i. i \<noteq> groupId) (cu_groupLeaderships user)\<rparr>)"
    using u by (subst findOne_updateOne) simp_all
  have gg: "findOne (\<lambda>g. g_id g = groupId)
              (updateOne (\<lambda>g. g_id g = groupId)
                 (\<lambda>g. g\<lparr>g_leaders := filter (\<lambda>i. i \<noteq> cu_person user) (g_leaders grp)\<rparr>)
                 (groups s))
            = Some (grp\<lparr>g_leaders := filter (\<lambda>i. i \<noteq> cu_person user) (g_leaders grp)\<rparr>)"
    using g by (subst findOne_updateOne) simp_all
  show ?thesis
    using perm u g uu gg vu vg
    by (simp add: removeGroupLeadership_def Let_def)
qed

lemma assignGroupLeadership_Inr:
  assumes "assignGroupLeadership caller userId groupId s = (Inr r, s1)"
  shows "checkPermission ''manage_groups'' caller
       \<and> (\<exists>user grp. findOne (\<lambda>u. cu_id u = userId) (churchUsers s) = Some user
                   \<and> findOne (\<lambda>g. g_id g = groupId) (groups s) = Some grp
                   \<and> validChurchUser user
                   \<and> (cu_person user \<in> set (g_leaders grp) \<or> validGroup grp))"
  using assms
  by (auto simp: assignGroupLeadership_def addGroupLeadership_def Let_def
           split: if_splits option.splits sum.splits)

lemma assignGroupLeadership_noop:
  assumes "checkPermission ''manage_groups'' caller"
    and "findOne (\<lambda>u. cu_id u = userId) (churchUsers s) = Some user"
    and "findOne (\<lambda>g. g_id g = groupId) (groups s) = Some grp"
    and "validChurchUser user"
    and "groupId \<in> set (cu_groupLeaderships user)"
    and "cu_person user \<in> set (g_leaders grp)"
  shows "assignGroupLeadership caller userId groupId s = (Inr (Some user), s)"
  using assms by (simp add: assignGroupLeadership_def addGroupLeadership_def Let_def)

text \<open>
  C6. For a caller with the \<open>manage_groups\<close> permission, a stored valid church user
  and a stored valid group, \<open>assign-group-leadership\<close> succeeds and leaves the group in the user's
  \<open>groupLeaderships\<close> and the user's person in the group's \<open>leaders\<close>;
  \<open>remove-group-leadership\<close> succeeds and leaves neither.
\<close>

theorem leadership_assign_remove:
  assumes perm: "checkPermission ''manage_groups'' caller"
    and u: "findOne (\<lambda>u. cu_id u = userId) (churchUsers s) = Some user"
    and g: "findOne (\<lambda>g. g_id g = groupId) (groups s) = Some grp"
    and vu: "validChurchUser user"
    and vg: "validGroup grp"
  shows "(\<exists>r s' user' grp'.
            assignGroupLeadership caller userId groupId s = (Inr r, s')
          \<and> findOne (\<lambda>u. cu_id u = userId) (churchUsers s') = Some user'
          \<and> findOne (\<lambda>g. g_id g = groupId) (groups s') = Some grp'
          \<and> cu_person user' = cu_person user
          \<and> groupId \<in> set (cu_groupLeaderships user')
          \<and> cu_person user' \<in> set (g_leaders grp'))
       \<and> (\<exists>r s' user' grp'.
            removeGroupLeadership caller userId groupId s = (Inr r, s')
          \<and> findOne (\<lambda>u. cu_id u = userId) (churchUsers s') = Some user'
          \<and> findOne (\<lambda>g. g_id g = groupId) (groups s') = Some grp'
          \<and> cu_person user' = cu_person user
          \<and> groupId \<notin> set (cu_groupLeaderships user')
          \<and> cu_person user' \<notin> set (g_leaders grp'))"
proof
  from assignGroupLeadership_effect [OF perm u g vu vg] obtain s' where
    "assignGroupLeadership caller userId groupId s
       = (Inr (Some (if groupId \<in> set (cu_groupLeaderships user) then user
                     else user\<lparr>cu_groupLeaderships := cu_groupLeaderships user @ [groupId]\<rparr>)), s')"
    "findOne (\<lambda>u. cu_id u = userId) (churchUsers s')
       = Some (if groupId \<in> set (cu_groupLeaderships user) then user
               else user\<lparr>cu_groupLeaderships := cu_groupLeaderships user @ [groupId]\<rparr>)"
    "findOne (\<lambda>g. g_id g = groupId) (groups s')
       = Some (if cu_person user \<in> set (g_leaders grp) then grp
               else grp\<lparr>g_leaders := g_leaders grp @ [cu_person user]\<rparr>)"
    by blast
  then show "\<exists>r s' user' grp'.
            assignGroupLeadership caller userId groupId s = (Inr r, s')
          \<and> findOne (\<lambda>u. cu_id u = userId) (churchUsers s') = Some user'
          \<and> findOne (\<lambda>g. g_id g = groupId) (groups s') = Some grp'
          \<and> cu_person user' = cu_person user
          \<and> groupId \<in> set (cu_groupLeaderships user')
          \<and> cu_person user' \<in> set (g_leaders grp')"
    by (cases "groupId \<in> set (cu_groupLeaderships user)";
        cases "cu_person user \<in> set (g_leaders grp)") simp_all
next
  from removeGroupLeadership_effect [OF perm u g vu vg] obtain s' where
    "removeGroupLeadership caller userId groupId s
             = (Inr (Some (user\<lparr>cu_groupLeaderships :=
                                   filter (\<lambda>i. i \<noteq> groupId) (cu_groupLeaderships user)\<rparr>)), s')"
    "findOne (\<lambda>u. cu_id u = userId) (churchUsers s')
             = Some (user\<lparr>cu_groupLeaderships :=
                            filter (\<lambda>i. i \<noteq> groupId) (cu_groupLeaderships user)\<rparr>)"
    "findOne (\<lambda>g. g_id g = groupId) (groups s')
             = Some (grp\<lparr>g_leaders := filter (\<lambda>i. i \<noteq> cu_person user) (g_leaders grp)\<rparr>)"
    by blast
  then show "\<exists>r s' user' grp'.
            removeGroupLeadership caller userId groupId s = (Inr r, s')
          \<and> findOne (\<lambda>u. cu_id u = userId) (churchUsers s') = Some user'
          \<and> findOne (\<lambda>g. g_id g = groupId) (groups s') = Some grp'
          \<and> cu_person user' = cu_person user
          \<and> groupId \<notin> set (cu_groupLeaderships user')
          \<and> cu_person user' \<notin> set (g_leaders grp')"
    by simp
qed

theorem leadership_assign_remove_witness:
  "checkPermission ''manage_groups'' ex_admin
   \<and> findOne (\<lambda>u. cu_id u = 50) (churchUsers ex_db) = Some churchUser50
   \<and> findOne (\<lambda>g. g_id g = 2) (groups ex_db) = Some choir
   \<and> validChurchUser churchUser50 \<and> validGroup choir \<and> validGroup youth
   \<and> assignGroupLeadership ex_admin 50 2 ex_db
       = (Inr (Some (churchUser50\<lparr>cu_groupLeaderships := [1, 2]\<rparr>)),
          ex_db\<lparr>groups := [youth, choir\<lparr>g_leaders := [11]\<rparr>],
                churchUsers := [churchUser50\<lparr>cu_groupLeaderships := [1, 2]\<rparr>]\<rparr>)
   \<and> findOne (\<lambda>g. g_id g = 1) (groups ex_db) = Some youth
   \<and> removeGroupLeadership ex_admin 50 1 ex_db
       = (Inr (Some (churchUser50\<lparr>cu_groupLeaderships := []\<rparr>)),
          ex_db\<lparr>groups := [youth\<lparr>g_leaders := []\<rparr>, choir],
                churchUsers := [churchUser50\<lparr>cu_groupLeaderships := []\<rparr>]\<rparr>)"
proof -
  have perm: "checkPermission ''manage_groups'' ex_admin"
    by (simp add: checkPermission_def hasPermission_def PERMISSIONS_def ex_admin_def)
  have u: "findOne (\<lambda>u. cu_id u = 50) (churchUsers ex_db) = Some churchUser50"
    by (simp add: findOne_def ex_defs)
  have g2: "findOne (\<lambda>g. g_id g = 2) (groups ex_db) = Some choir"
    by (simp add: findOne_def ex_defs)
  have g1: "findOne (\<lambda>g. g_id g = 1) (groups ex_db) = Some youth"
    by (simp add: findOne_def ex_defs)
  have vu: "validChurchUser churchUser50"
    by (simp add: validChurchUser_def ROLES_def permissionNames_def ex_defs)
  have vg2: "validGroup choir" and vg1: "validGroup youth"
    by (simp_all add: validGroup_def meetingFrequencies_def meetingDays_def ex_defs)
  have assign: "assignGroupLeadership ex_admin 50 2 ex_db
       = (Inr (Some (churchUser50\<lparr>cu_groupLeaderships := [1, 2]\<rparr>)),
          ex_db\<lparr>groups := [youth, choir\<lparr>g_leaders := [11]\<rparr>],
                churchUsers := [churchUser50\<lparr>cu_groupLeaderships := [1, 2]\<rparr>]\<rparr>)"
    using perm vu [unfolded churchUser50_def] vg2 [unfolded choir_def]
    by (simp add: assignGroupLeadership_def addGroupLeadership_def findOne_def Let_def ex_defs)
  have remove: "removeGroupLeadership ex_admin 50 1 ex_db
       = (Inr (Some (churchUser50\<lparr>cu_groupLeaderships := []\<rparr>)),
          ex_db\<lparr>groups := [youth\<lparr>g_leaders := []\<rparr>, choir],
                churchUsers := [churchUser50\<lparr>cu_groupLeaderships := []\<rparr>]\<rparr>)"
    using perm vu [unfolded churchUser50_def] vg1 [unfolded youth_def]
    by (simp add: removeGroupLeadership_def findOne_def Let_def ex_defs)
  from leadership_assign_remove [OF perm u g2 vu vg2]
    leadership_assign_remove [OF perm u g1 vu vg1]
  show ?thesis using perm u g2 g1 vu vg2 vg1 assign remove by simp
qed

text \<open>
  C7. After a successful \<open>assign-group-leadership\<close>, the same call again returns the
  same response and leaves the store exactly as it is. The first call appends the group
  and the person only when absent: when the user's \<open>groupLeaderships\<close> (the group's
  \<open>leaders\<close>) had no duplicates before, it holds the group (the person) exactly once.
\<close>

theorem assignGroupLeadership_idempotent:
  assumes first: "assignGroupLeadership caller userId groupId s = (Inr r, s1)"
  shows "assignGroupLeadership caller userId groupId s1 = (Inr r, s1)
       \<and> (\<exists>user grp user1 grp1.
            findOne (\<lambda>u. cu_id u = userId) (churchUsers s) = Some user
          \<and> findOne (\<lambda>g. g_id g = groupId) (groups s) = Some grp
          \<and> findOne (\<lambda>u. cu_id u = userId) (churchUsers s1) = Some user1
          \<and> findOne (\<lambda>g. g_id g = groupId) (groups s1) = Some grp1
          \<and> (distinct (cu_groupLeaderships user) \<longrightarrow>
                count_list (cu_groupLeaderships user1) groupId = 1)
          \<and> (distinct (g_leaders grp) \<longrightarrow>
                count_list (g_leaders grp1) (cu_person user) = 1))"
proof -
  from assignGroupLeadership_Inr [OF first] obtain user grp where
    perm: "checkPermission ''manage_groups'' caller"
    and u: "findOne (\<lambda>u. cu_id u = userId) (churchUsers s) = Some user"
    and g: "findOne (\<lambda>g. g_id g = groupId) (groups s) = Some grp"
    and vu: "validChurchUser user"
    and vg: "cu_person user \<in> set (g_leaders grp) \<or> validGroup grp"
    by blast
  let ?user1 = "if groupId \<in> set (cu_groupLeaderships user) then user
                else user\<lparr>cu_groupLeaderships := cu_groupLeaderships user @ [groupId]\<rparr>"
  let ?grp1 = "if cu_person user \<in> set (g_leaders grp) then grp
               else grp\<lparr>g_leaders := g_leaders grp @ [cu_person user]\<rparr>"
  from vg have vg': "cu_person user \<notin> set (g_leaders grp) \<Longrightarrow> validGroup grp"
    by blast
  from assignGroupLeadership_effect [OF perm u g vu vg'] first
  have r: "r = Some ?user1"
    and u1: "findOne (\<lambda>u. cu_id u = userId) (churchUsers s1) = Some ?user1"
    and g1: "findOne (\<lambda>g. g_id g = groupId) (groups s1) = Some ?grp1"
    by auto
  have in_u: "groupId \<in> set (cu_groupLeaderships ?user1)"
    and in_g: "cu_person ?user1 \<in> set (g_leaders ?grp1)"
    by simp_all
  from vu have vu1: "validChurchUser ?user1"
    by (simp add: validChurchUser_def)
  have again: "assignGroupLeadership caller userId groupId s1 = (Inr r, s1)"
    unfolding r using perm u1 g1 vu1 in_u in_g by (rule assignGroupLeadership_noop)
  have cu: "distinct (cu_groupLeaderships user) \<longrightarrow>
              count_list (cu_groupLeaderships ?user1) groupId = 1"
    using count_list_push_if_absent [of "cu_groupLeaderships user" groupId]
    by (cases "groupId \<in> set (cu_groupLeaderships user)") simp_all
  have cg: "distinct (g_leaders grp) \<longrightarrow> count_list (g_leaders ?grp1) (cu_person user) = 1"
    using count_list_push_if_absent [of "g_leaders grp" "cu_person user"]
    by (cases "cu_person user \<in> set (g_leaders grp)") simp_all
  from again u g u1 g1 cu cg show ?thesis by blast
qed

theorem assignGroupLeadership_idempotent_witness:
  "assignGroupLeadership ex_admin 50 2 ex_db
       = (Inr (Some (churchUser50\<lparr>cu_groupLeaderships := [1, 2]\<rparr>)),
          ex_db\<lparr>groups := [youth, choir\<lparr>g_leaders := [11]\<rparr>],
                churchUsers := [churchUser50\<lparr>cu_groupLeaderships := [1, 2]\<rparr>]\<rparr>)
   \<and> assignGroupLeadership ex_admin 50 2
        (ex_db\<lparr>groups := [youth, choir\<lparr>g_leaders := [11]\<rparr>],
               churchUsers := [churchUser50\<lparr>cu_groupLeaderships := [1, 2]\<rparr>]\<rparr>)
       = (Inr (Some (churchUser50\<lparr>cu_groupLeaderships := [1, 2]\<rparr>)),
          ex_db\<lparr>groups := [youth, choir\<lparr>g_leaders := [11]\<rparr>],
                churchUsers := [churchUser50\<lparr>cu_groupLeaderships := [1, 2]\<rparr>]\<rparr>)
   \<and> distinct (cu_groupLeaderships churchUser50) \<and> distinct (g_leaders choir)
   \<and> count_list [1, 2] (2::nat) = 1 \<and> count_list [11] (cu_person churchUser50) = 1"
proof -
  have first: "assignGroupLeadership ex_admin 50 2 ex_db
       = (Inr (Some (churchUser50\<lparr>cu_groupLeaderships := [1, 2]\<rparr>)),
          ex_db\<lparr>groups := [youth, choir\<lparr>g_leaders := [11]\<rparr>],
                churchUsers := [churchUser50\<lparr>cu_groupLeaderships := [1, 2]\<rparr>]\<rparr>)"
    by (simp add: assignGroupLeadership_def addGroupLeadership_def checkPermission_def
        hasPermission_def PERMISSIONS_def findOne_def validChurchUser_def ROLES_def
        permissionNames_def validGroup_def meetingFrequencies_def meetingDays_def
        Let_def ex_defs)
  have d: "distinct (cu_groupLeaderships churchUser50)" "distinct (g_leaders choir)"
    by (simp_all add: ex_defs)
  from assignGroupLeadership_idempotent [OF first] first d
  show ?thesis by (simp add: ex_defs)
qed

section \<open>Recording attendance\<close>

lemma getGroupAttendance_row:
  assumes m: "m \<in> set (groupMembers s)"
    and p: "p \<in> set (people s)" "p_id p = m_person m"
    and lo: "\<exists>e \<in> set (m_attendance m). startDate \<le> a_date e"
    and hi: "\<exists>e \<in> set (m_attendance m). a_date e \<le> endDate"
  shows "\<lparr>row_memberId = m_id m, row_firstName = p_firstName p, row_lastName = p_lastName p,
          row_attendance = filter (\<lambda>e. startDate \<le> a_date e \<and> a_date e \<le> endDate)
                             (m_attendance m)\<rparr>
         \<in> set (getGroupAttendance (m_group m) startDate endDate s)"
  unfolding getGroupAttendance_def using assms
  by (auto simp: list_ex_iff intro!: bexI [of _ m] image_eqI [of _ _ p])

lemma validGroupMember_push:
  "validGroupMember m \<Longrightarrow> status \<in> set attendanceStatuses \<Longrightarrow>
   validGroupMember
     (m\<lparr>m_attendance :=
          m_attendance m @ [\<lparr>a_date = date, a_status = status, a_notes = notes\<rparr>]\<rparr>)"
  by (simp add: validGroupMember_def)

lemma recordAttendance_once:
  assumes m: "findOne (\<lambda>m. m_id m = memberId) (groupMembers s) = Some member"
    and valid: "validGroupMember member"
    and st: "status \<in> set attendanceStatuses"
  shows "\<exists>s1. recordAttendance member date status notes s = Inr s1
          \<and> findOne (\<lambda>m. m_id m = memberId) (groupMembers s1)
              = Some (member\<lparr>m_attendance := m_attendance member
                        @ [\<lparr>a_date = date, a_status = status, a_notes = notes\<rparr>]\<rparr>)
          \<and> length (groupMembers s1) = length (groupMembers s)
          \<and> people s1 = people s"
proof -
  let ?e = "\<lparr>a_date = date, a_status = status, a_notes = notes\<rparr>"
  let ?h = "\<lambda>m. m\<lparr>m_attendance := m_attendance m @ [?e]\<rparr>"
  from findOne_Some_set [OF m] have mid: "m_id member = memberId" by simp
  have f1: "findOne (\<lambda>m. m_id m = memberId)
              (updateOne (\<lambda>m. m_id m = memberId) ?h (groupMembers s)) = Some (?h member)"
    by (subst findOne_updateOne) (simp_all add: m)
  from validGroupMember_push [OF valid st, of date "notes"] f1 mid
  show ?thesis by (simp add: recordAttendance_def length_updateOne)
qed

lemma groupAttendanceLoop_step:
  assumes a: "findOne (\<lambda>m. m_id m = mid \<and> m_group m = gid \<and> Some (m_church m) = u_church user)
                (groupMembers s) = Some a"
    and valid: "validGroupMember a"
    and st: "status \<in> set attendanceStatuses"
  shows "groupAttendanceLoop user gid date
           (\<lparr>r_memberId = mid, r_status = Some status, r_notes = Some notes\<rparr> # rest) results s
         = groupAttendanceLoop user gid date rest (results @ [(mid, True)])
             (s\<lparr>groupMembers :=
                  updateOne (\<lambda>m. m_id m = mid)
                    (\<lambda>m. m\<lparr>m_attendance := m_attendance m
                             @ [\<lparr>a_date = date, a_status = status, a_notes = notes\<rparr>]\<rparr>)
                    (groupMembers s)\<rparr>)"
proof -
  from findOne_Some_set [OF a] have "m_id a = mid" by simp
  then show ?thesis
    using a validGroupMember_push [OF valid st, of date "notes"] by (simp add: Let_def)
qed

lemma updateOne_valid:
  "list_all V xs \<Longrightarrow> (\<And>x. V x \<Longrightarrow> V (h x)) \<Longrightarrow> list_all V (updateOne Q h xs)"
  by (induction xs) auto

lemma groupAttendanceLoop_twice:
  assumes m: "findOne (\<lambda>m. m_id m = memberId) (groupMembers s) = Some member"
    and valid: "list_all validGroupMember (groupMembers s)"
    and st: "status \<in> set attendanceStatuses"
    and church: "Some (m_church member) = u_church user"
  shows "groupAttendanceLoop user (m_group member) date
           [\<lparr>r_memberId = memberId, r_status = Some status, r_notes = Some notes\<rparr>,
            \<lparr>r_memberId = memberId, r_status = Some status, r_notes = Some notes\<rparr>] [] s
         = (Inr [(memberId, True), (memberId, True)],
            s\<lparr>groupMembers :=
                updateOne (\<lambda>m. m_id m = memberId)
                  (\<lambda>m. m\<lparr>m_attendance := m_attendance m
                           @ [\<lparr>a_date = date, a_status = status, a_notes = notes\<rparr>]\<rparr>)
                  (updateOne (\<lambda>m. m_id m = memberId)
                     (\<lambda>m. m\<lparr>m_attendance := m_attendance m
                              @ [\<lparr>a_date = date, a_status = status, a_notes = notes\<rparr>]\<rparr>)
                     (groupMembers s))\<rparr>)"
proof -
  let ?P = "\<lambda>x. m_id x = memberId \<and> m_group x = m_group member
                \<and> Some (m_church x) = u_church user"
  let ?e = "\<lparr>a_date = date, a_status = status, a_notes = notes\<rparr>"
  let ?h = "\<lambda>m. m\<lparr>m_attendance := m_attendance m @ [?e]\<rparr>"
  let ?xs1 = "updateOne (\<lambda>m. m_id m = memberId) ?h (groupMembers s)"
  let ?s1 = "s\<lparr>groupMembers := ?xs1\<rparr>"
  from findOne_Some_set [OF m] have mem: "member \<in> set (groupMembers s)" "m_id member = memberId"
    by simp_all
  have pm: "?P member" using mem church by simp
  have "findOne ?P (groupMembers s) \<noteq> None"
    using mem pm by (auto simp: findOne_None_iff)
  then obtain a where a: "findOne ?P (groupMembers s) = Some a" by auto
  from findOne_Some_set [OF a] valid have va: "validGroupMember a"
    by (simp add: list_all_iff)
  have valid1: "list_all validGroupMember ?xs1"
    using valid validGroupMember_push [OF _ st] by (rule updateOne_valid)
  have "\<exists>y. findOne ?P ?xs1 = Some y \<and> ?P y"
    using mem(1) pm by (rule findOne_after_updateOne) simp
  then obtain b where b: "findOne ?P (groupMembers ?s1) = Some b"
    by auto
  from findOne_Some_set [OF b] valid1 have vb: "validGroupMember b"
    by (simp add: list_all_iff)
  show ?thesis
    unfolding groupAttendanceLoop_step [OF a va st] groupAttendanceLoop_step [OF b vb st]
    by simp
qed

text \<open>
  C8. For a stored valid member and a status of the enum, \<open>recordAttendance\<close> appends
  exactly one entry to the member's \<open>attendance\<close> and keeps the number of members;
  called again on the stored member with the same date it appends the entry a second
  time. The group report over a range that contains the date then has a row for the
  member (when the member's person is stored) whose entries are the earlier entries in
  range followed by both new entries. \<open>POST /api/groups/:id/attendance\<close> with the two
  records in one request, on a store of valid members, reports two successes and leaves
  the same store.
\<close>

theorem recordAttendance_no_dedup:
  assumes m: "findOne (\<lambda>m. m_id m = memberId) (groupMembers s) = Some member"
    and valid: "validGroupMember member"
    and st: "status \<in> set attendanceStatuses"
  shows "\<exists>s1 s2 member1.
          recordAttendance member date status notes s = Inr s1
        \<and> findOne (\<lambda>m. m_id m = memberId) (groupMembers s1) = Some member1
        \<and> member1 = member\<lparr>m_attendance := m_attendance member
                            @ [\<lparr>a_date = date, a_status = status, a_notes = notes\<rparr>]\<rparr>
        \<and> length (groupMembers s1) = length (groupMembers s)
        \<and> recordAttendance member1 date status notes s1 = Inr s2
        \<and> findOne (\<lambda>m. m_id m = memberId) (groupMembers s2)
            = Some (member\<lparr>m_attendance := m_attendance member
                      @ [\<lparr>a_date = date, a_status = status, a_notes = notes\<rparr>,
                         \<lparr>a_date = date, a_status = status, a_notes = notes\<rparr>]\<rparr>)
        \<and> (startDate \<le> date \<and> date \<le> endDate
             \<and> (\<exists>p \<in> set (people s). p_id p = m_person member) \<longrightarrow>
            (\<exists>row \<in> set (getGroupAttendance (m_group member) startDate endDate s2).
                row_memberId row = memberId
              \<and> row_attendance row
                  = filter (\<lambda>e. startDate \<le> a_date e \<and> a_date e \<le> endDate)
                      (m_attendance member)
                    @ [\<lparr>a_date = date, a_status = status, a_notes = notes\<rparr>,
                       \<lparr>a_date = date, a_status = status, a_notes = notes\<rparr>]))
        \<and> (authorizeGroupAccess user (IdString (m_group member))
             \<and> Some (m_church member) = u_church user
             \<and> list_all validGroupMember (groupMembers s) \<longrightarrow>
            postGroupAttendance user (m_group member)
              \<lparr>ab_date = Some date,
                 ab_attendanceData =
                   Some [\<lparr>r_memberId = memberId, r_status = Some status, r_notes = Some notes\<rparr>,
                         \<lparr>r_memberId = memberId, r_status = Some status, r_notes = Some notes\<rparr>]\<rparr>
              s
            = (Inr [(memberId, True), (memberId, True)], s2))"
proof -
  let ?e = "\<lparr>a_date = date, a_status = status, a_notes = notes\<rparr>"
  let ?h = "\<lambda>m. m\<lparr>m_attendance := m_attendance m @ [?e]\<rparr>"
  let ?m1 = "member\<lparr>m_attendance := m_attendance member @ [?e]\<rparr>"
  let ?m2 = "member\<lparr>m_attendance := m_attendance member @ [?e, ?e]\<rparr>"
  let ?s1 = "s\<lparr>groupMembers := updateOne (\<lambda>m. m_id m = memberId) ?h (groupMembers s)\<rparr>"
  let ?s2 = "s\<lparr>groupMembers :=
                updateOne (\<lambda>m. m_id m = memberId) ?h
                  (updateOne (\<lambda>m. m_id m = memberId) ?h (groupMembers s))\<rparr>"
  from findOne_Some_set [OF m] have mid: "m_id member = memberId" by simp
  have v1: "validGroupMember ?m1"
    using valid st by (rule validGroupMember_push)
  have v2: "validGroupMember (?h ?m1)"
    using v1 st by (rule validGroupMember_push)
  have r1: "recordAttendance member date status notes s = Inr ?s1"
    using v1 mid by (simp add: recordAttendance_def)
  have f1: "findOne (\<lambda>m. m_id m = memberId) (groupMembers ?s1) = Some ?m1"
    using recordAttendance_once [OF m valid st, of date "notes"] r1 by simp
  have r2: "recordAttendance ?m1 date status notes ?s1 = Inr ?s2"
    using v2 mid by (simp add: recordAttendance_def)
  have f2: "findOne (\<lambda>m. m_id m = memberId) (groupMembers ?s2) = Some ?m2"
    using recordAttendance_once [OF f1 v1 st, of date "notes"] r2 by simp
  have len: "length (groupMembers ?s1) = length (groupMembers s)"
    by (simp add: length_updateOne)
  from findOne_Some_set [OF f2] have in2: "?m2 \<in> set (groupMembers ?s2)" by simp
  have report: "\<exists>row \<in> set (getGroupAttendance (m_group member) startDate endDate ?s2).
                row_memberId row = memberId
              \<and> row_attendance row
                  = filter (\<lambda>e. startDate \<le> a_date e \<and> a_date e \<le> endDate)
                      (m_attendance member) @ [?e, ?e]"
    if range: "startDate \<le> date" "date \<le> endDate"
      and p: "p \<in> set (people s)" "p_id p = m_person member" for p
  proof -
    have "\<lparr>row_memberId = m_id ?m2, row_firstName = p_firstName p,
           row_lastName = p_lastName p,
           row_attendance = filter (\<lambda>e. startDate \<le> a_date e \<and> a_date e \<le> endDate)
                              (m_attendance ?m2)\<rparr>
          \<in> set (getGroupAttendance (m_group ?m2) startDate endDate ?s2)"
      using in2 p range by (intro getGroupAttendance_row) auto
    then show ?thesis using range mid by force
  qed
  have route: "postGroupAttendance user (m_group member)
              \<lparr>ab_date = Some date,
                 ab_attendanceData =
                   Some [\<lparr>r_memberId = memberId, r_status = Some status, r_notes = Some notes\<rparr>,
                         \<lparr>r_memberId = memberId, r_status = Some status, r_notes = Some notes\<rparr>]\<rparr>
              s
            = (Inr [(memberId, True), (memberId, True)], ?s2)"
    if "authorizeGroupAccess user (IdString (m_group member))"
      and "Some (m_church member) = u_church user"
      and "list_all validGroupMember (groupMembers s)"
    using that groupAttendanceLoop_twice [OF m that(3) st that(2), of date "notes"]
    by (simp add: postGroupAttendance_def)
  show ?thesis
    apply (rule exI [of _ ?s1])
    apply (rule exI [of _ ?s2])
    apply (rule exI [of _ ?m1])
    using r1 f1 len r2 f2 report route by blast
qed

theorem recordAttendance_no_dedup_witness:
  "findOne (\<lambda>m. m_id m = 100) (groupMembers ex_db) = Some member100
   \<and> validGroupMember member100
   \<and> ''present'' \<in> set attendanceStatuses
   \<and> (\<exists>s1 member1. recordAttendance member100 7 ''present'' [] ex_db = Inr s1
          \<and> findOne (\<lambda>m. m_id m = 100) (groupMembers s1) = Some member1
          \<and> recordAttendance member1 7 ''present'' [] s1
              = Inr (ex_db\<lparr>groupMembers := [member100_twice, member101]\<rparr>))
   \<and> getGroupAttendance 1 0 10 (ex_db\<lparr>groupMembers := [member100_twice, member101]\<rparr>)
       = [\<lparr>row_memberId = 100, row_firstName = ''Ben'', row_lastName = ''Ray'',
           row_attendance = m_attendance member100_twice\<rparr>]"
proof -
  have m: "findOne (\<lambda>m. m_id m = 100) (groupMembers ex_db) = Some member100"
    by (simp add: findOne_def ex_defs)
  have valid: "validGroupMember member100"
    by (simp add: validGroupMember_def memberRoles_def attendanceStatuses_def ex_defs)
  have st: "''present'' \<in> set attendanceStatuses"
    by (simp add: attendanceStatuses_def)
  have run: "\<exists>s1 member1. recordAttendance member100 7 ''present'' [] ex_db = Inr s1
          \<and> findOne (\<lambda>m. m_id m = 100) (groupMembers s1) = Some member1
          \<and> recordAttendance member1 7 ''present'' [] s1
              = Inr (ex_db\<lparr>groupMembers := [member100_twice, member101]\<rparr>)"
    by (simp add: recordAttendance_def validGroupMember_def memberRoles_def
        attendanceStatuses_def findOne_def member100_twice_def ex_defs)
  have report: "getGroupAttendance 1 0 10 (ex_db\<lparr>groupMembers := [member100_twice, member101]\<rparr>)
       = [\<lparr>row_memberId = 100, row_firstName = ''Ben'', row_lastName = ''Ray'',
           row_attendance = m_attendance member100_twice\<rparr>]"
    by (simp add: getGroupAttendance_def member100_twice_def ex_defs)
  from recordAttendance_no_dedup [OF m valid st, of 7 "[]" 0 10 ex_admin] m valid st run report
  show ?thesis by simp
qed

section \<open>Attendance reports\<close>

lemma getGroupAttendance_rows:
  assumes "row \<in> set (getGroupAttendance gid startDate endDate s)"
  shows "\<exists>m \<in> set (groupMembers s). \<exists>p \<in> set (people s).
           m_group m = gid \<and> p_id p = m_person m \<and> m_attendance m \<noteq> []
         \<and> row = \<lparr>row_memberId = m_id m, row_firstName = p_firstName p,
                   row_lastName = p_lastName p,
                   row_attendance =
                     filter (\<lambda>e. startDate \<le> a_date e \<and> a_date e \<le> endDate)
                       (m_attendance m)\<rparr>"
proof -
  from assms obtain m p where
    m: "m \<in> set (groupMembers s)" "m_group m = gid"
      "list_ex (\<lambda>e. startDate \<le> a_date e) (m_attendance m)"
    and p: "p \<in> set (people s)" "p_id p = m_person m"
    and row: "row = \<lparr>row_memberId = m_id m, row_firstName = p_firstName p,
                      row_lastName = p_lastName p,
                      row_attendance =
                        filter (\<lambda>e. startDate \<le> a_date e \<and> a_date e \<le> endDate)
                          (m_attendance m)\<rparr>"
    unfolding getGroupAttendance_def by auto
  from m(3) have "m_attendance m \<noteq> []" by auto
  with m p row show ?thesis by blast
qed

lemma subgroupAttendanceRows_Inr:
  "subgroupAttendanceRows startDate endDate s ms = Inr rows \<Longrightarrow>
   length rows = length ms
   \<and> (\<forall>i < length ms. \<exists>p.
         findOne (\<lambda>p. p_id p = m_person (ms ! i)) (people s) = Some p
       \<and> rows ! i = \<lparr>row_memberId = m_id (ms ! i), row_firstName = p_firstName p,
                      row_lastName = p_lastName p,
                      row_attendance =
                        filter (\<lambda>e. startDate \<le> a_date e \<and> a_date e \<le> endDate)
                          (m_attendance (ms ! i))\<rparr>)"
proof (induction ms arbitrary: rows)
  case Nil
  then show ?case by simp
next
  case (Cons m ms)
  from Cons.prems obtain p rest where
    p: "findOne (\<lambda>p. p_id p = m_person m) (people s) = Some p"
    and rest: "subgroupAttendanceRows startDate endDate s ms = Inr rest"
    and rows: "rows = \<lparr>row_memberId = m_id m, row_firstName = p_firstName p,
                       row_lastName = p_lastName p,
                       row_attendance =
                         filter (\<lambda>e. startDate \<le> a_date e \<and> a_date e \<le> endDate)
                           (m_attendance m)\<rparr> # rest"
    by (auto split: option.splits sum.splits)
  from Cons.IH [OF rest] have ih_len: "length rest = length ms"
    and ih: "\<And>i. i < length ms \<Longrightarrow> \<exists>p.
         findOne (\<lambda>p. p_id p = m_person (ms ! i)) (people s) = Some p
       \<and> rest ! i = \<lparr>row_memberId = m_id (ms ! i), row_firstName = p_firstName p,
                      row_lastName = p_lastName p,
                      row_attendance =
                        filter (\<lambda>e. startDate \<le> a_date e \<and> a_date e \<le> endDate)
                          (m_attendance (ms ! i))\<rparr>"
    by simp_all
  show ?case
  proof (intro conjI allI impI)
    show "length rows = length (m # ms)" using rows ih_len by simp
  next
    fix i assume "i < length (m # ms)"
    then show "\<exists>p. findOne (\<lambda>p. p_id p = m_person ((m # ms) ! i)) (people s) = Some p
       \<and> rows ! i = \<lparr>row_memberId = m_id ((m # ms) ! i), row_firstName = p_firstName p,
                      row_lastName = p_lastName p,
                      row_attendance =
                        filter (\<lambda>e. startDate \<le> a_date e \<and> a_date e \<le> endDate)
                          (m_attendance ((m # ms) ! i))\<rparr>"
      using p rows ih by (cases i) simp_all
  qed
qed

lemma subgroupAttendanceRows_total:
  "\<forall>m \<in> set ms. \<exists>p \<in> set (people s). p_id p = m_person m \<Longrightarrow>
   \<exists>rows. subgroupAttendanceRows startDate endDate s ms = Inr rows"
proof (induction ms)
  case Nil
  then show ?case by simp
next
  case (Cons m ms)
  then obtain rest where rest: "subgroupAttendanceRows startDate endDate s ms = Inr rest"
    by auto
  from Cons.prems have "findOne (\<lambda>p. p_id p = m_person m) (people s) \<noteq> None"
    by (auto simp: findOne_None_iff)
  then obtain p where "findOne (\<lambda>p. p_id p = m_person m) (people s) = Some p" by auto
  with rest show ?case by simp
qed

text \<open>
  The claim C9 read on \<open>GET /api/groups/:id/attendance\<close>: member 101 belongs to
  group 2 and its person is stored, but it has no attendance entry, and the report of
  group 2 has no row for it.
\<close>

theorem groupReport_omits_member_counterexample:
  "findOne (\<lambda>m. m_group m = 2) (groupMembers ex_db) = Some member101
   \<and> findOne (\<lambda>p. p_id p = m_person member101) (people ex_db)
       = Some \<lparr>p_id = 13, p_firstName = ''Cat'', p_lastName = ''Fox''\<rparr>
   \<and> getGroupAttendanceReport ex_admin 2 (Some 0) (Some 10) ex_db = Inr []"
  by (simp add: getGroupAttendanceReport_def getGroupAttendance_def authorizeGroupAccess_def
      findOne_def ex_defs)

text \<open>
  C9, amended. The group report (the answer of \<open>GET /api/groups/:id/attendance\<close> for
  a caller who passes the access check) has rows only for members of the group that have
  attendance entries and a stored person, and it has the row of every member of the group
  with an entry dated in the inclusive range \<open>[startDate, endDate]\<close> and a stored
  person. The subgroup report, when it succeeds, has one row for each member of the
  subgroup in the caller's church, in store order; it succeeds when every member's person
  is stored. In both reports a row joins the member's id with the person's first and last
  name and with exactly the member's entries dated in the inclusive range, in their
  insertion order.
\<close>

theorem attendanceReport_rows:
  "(authorizeGroupAccess user (IdString gid) \<longrightarrow>
      getGroupAttendanceReport user gid (Some startDate) (Some endDate) s
        = Inr (getGroupAttendance gid startDate endDate s))
   \<and> (\<forall>row \<in> set (getGroupAttendance gid startDate endDate s).
        \<exists>m \<in> set (groupMembers s). \<exists>p \<in> set (people s).
           m_group m = gid \<and> p_id p = m_person m \<and> m_attendance m \<noteq> []
         \<and> row = \<lparr>row_memberId = m_id m, row_firstName = p_firstName p,
                   row_lastName = p_lastName p,
                   row_attendance =
                     filter (\<lambda>e. startDate \<le> a_date e \<and> a_date e \<le> endDate)
                       (m_attendance m)\<rparr>)
   \<and> (\<forall>m \<in> set (groupMembers s). \<forall>p \<in> set (people s).
        m_group m = gid \<and> p_id p = m_person m
        \<and> (\<exists>e \<in> set (m_attendance m). startDate \<le> a_date e \<and> a_date e \<le> endDate) \<longrightarrow>
        \<lparr>row_memberId = m_id m, row_firstName = p_firstName p, row_lastName = p_lastName p,
         row_attendance =
           filter (\<lambda>e. startDate \<le> a_date e \<and> a_date e \<le> endDate) (m_attendance m)\<rparr>
        \<in> set (getGroupAttendance gid startDate endDate s))
   \<and> (authorizeSubgroupAccess user sid s \<longrightarrow>
        (\<forall>rows. getSubgroupAttendanceReport user sid (Some startDate) (Some endDate) s = Inr rows
           \<longrightarrow>
           length rows
             = length (filter (\<lambda>m. m_subgroup m = Some sid \<and> Some (m_church m) = u_church user)
                         (groupMembers s))
           \<and> (\<forall>i < length rows. \<exists>p.
                findOne (\<lambda>p. p_id p = m_person
                           (filter (\<lambda>m. m_subgroup m = Some sid
                                        \<and> Some (m_church m) = u_church user)
                              (groupMembers s) ! i)) (people s) = Some p
              \<and> rows ! i =
                  \<lparr>row_memberId =
                     m_id (filter (\<lambda>m. m_subgroup m = Some sid
                                       \<and> Some (m_church m) = u_church user)
                             (groupMembers s) ! i),
                   row_firstName = p_firstName p, row_lastName = p_lastName p,
                   row_attendance =
                     filter (\<lambda>e. startDate \<le> a_date e \<and> a_date e \<le> endDate)
                       (m_attendance
                          (filter (\<lambda>m. m_subgroup m = Some sid
                                       \<and> Some (m_church m) = u_church user)
                             (groupMembers s) ! i))\<rparr>))
        \<and> ((\<forall>m \<in> set (groupMembers s). \<exists>p \<in> set (people s). p_id p = m_person m) \<longrightarrow>
             (\<exists>rows. getSubgroupAttendanceReport user sid (Some startDate) (Some endDate) s
                       = Inr rows)))"
proof (intro conjI impI ballI allI)
  assume "authorizeGroupAccess user (IdString gid)"
  then show "getGroupAttendanceReport user gid (Some startDate) (Some endDate) s
        = Inr (getGroupAttendance gid startDate endDate s)"
    by (simp add: getGroupAttendanceReport_def)
next
  fix row assume "row \<in> set (getGroupAttendance gid startDate endDate s)"
  then show "\<exists>m \<in> set (groupMembers s). \<exists>p \<in> set (people s).
           m_group m = gid \<and> p_id p = m_person m \<and> m_attendance m \<noteq> []
         \<and> row = \<lparr>row_memberId = m_id m, row_firstName = p_firstName p,
                   row_lastName = p_lastName p,
                   row_attendance =
                     filter (\<lambda>e. startDate \<le> a_date e \<and> a_date e \<le> endDate)
                       (m_attendance m)\<rparr>"
    by (rule getGroupAttendance_rows)
next
  fix m p
  assume m: "m \<in> set (groupMembers s)" and p: "p \<in> set (people s)"
    and h: "m_group m = gid \<and> p_id p = m_person m
        \<and> (\<exists>e \<in> set (m_attendance m). startDate \<le> a_date e \<and> a_date e \<le> endDate)"
  from h have lo: "\<exists>e \<in> set (m_attendance m). startDate \<le> a_date e"
    and hi: "\<exists>e \<in> set (m_attendance m). a_date e \<le> endDate"
    by auto
  from getGroupAttendance_row [OF m p _ lo hi] h
  show "\<lparr>row_memberId = m_id m, row_firstName = p_firstName p, row_lastName = p_lastName p,
         row_attendance =
           filter (\<lambda>e. startDate \<le> a_date e \<and> a_date e \<le> endDate) (m_attendance m)\<rparr>
        \<in> set (getGroupAttendance gid startDate endDate s)"
    by auto
next
  fix rows
  assume auth: "authorizeSubgroupAccess user sid s"
    and r: "getSubgroupAttendanceReport user sid (Some startDate) (Some endDate) s = Inr rows"
  let ?ms = "filter (\<lambda>m. m_subgroup m = Some sid \<and> Some (m_church m) = u_church user)
               (groupMembers s)"
  from auth r have rr: "subgroupAttendanceRows startDate endDate s ?ms = Inr rows"
    by (simp add: getSubgroupAttendanceReport_def)
  from subgroupAttendanceRows_Inr [OF rr]
  show "length rows = length ?ms" by simp
next
  fix rows i
  assume auth: "authorizeSubgroupAccess user sid s"
    and r: "getSubgroupAttendanceReport user sid (Some startDate) (Some endDate) s = Inr rows"
    and i: "i < length rows"
  let ?ms = "filter (\<lambda>m. m_subgroup m = Some sid \<and> Some (m_church m) = u_church user)
               (groupMembers s)"
  from auth r have rr: "subgroupAttendanceRows startDate endDate s ?ms = Inr rows"
    by (simp add: getSubgroupAttendanceReport_def)
  from subgroupAttendanceRows_Inr [OF rr] i
  show "\<exists>p. findOne (\<lambda>p. p_id p = m_person (?ms ! i)) (people s) = Some p
          \<and> rows ! i =
              \<lparr>row_memberId = m_id (?ms ! i),
               row_firstName = p_firstName p, row_lastName = p_lastName p,
               row_attendance =
                 filter (\<lambda>e. startDate \<le> a_date e \<and> a_date e \<le> endDate)
                   (m_attendance (?ms ! i))\<rparr>"
    by simp
next
  assume auth: "authorizeSubgroupAccess user sid s"
    and ppl: "\<forall>m \<in> set (groupMembers s). \<exists>p \<in> set (people s). p_id p = m_person m"
  let ?ms = "filter (\<lambda>m. m_subgroup m = Some sid \<and> Some (m_church m) = u_church user)
               (groupMembers s)"
  from ppl have "\<forall>m \<in> set ?ms. \<exists>p \<in> set (people s). p_id p = m_person m" by simp
  from subgroupAttendanceRows_total [OF this, of startDate endDate] auth
  show "\<exists>rows. getSubgroupAttendanceReport user sid (Some startDate) (Some endDate) s = Inr rows"
    by (simp add: getSubgroupAttendanceReport_def)
qed

theorem attendanceReport_rows_witness:
  "authorizeGroupAccess ex_admin (IdString 1)
   \<and> getGroupAttendanceReport ex_admin 1 (Some 0) (Some 10) ex_db
       = Inr [\<lparr>row_memberId = 100, row_firstName = ''Ben'', row_lastName = ''Ray'',
                row_attendance = [\<lparr>a_date = 5, a_status = ''present'', a_notes = []\<rparr>]\<rparr>]
   \<and> authorizeSubgroupAccess ex_admin 10 ex_db
   \<and> getSubgroupAttendanceReport ex_admin 10 (Some 0) (Some 10) ex_db
       = Inr [\<lparr>row_memberId = 100, row_firstName = ''Ben'', row_lastName = ''Ray'',
                row_attendance = [\<lparr>a_date = 5, a_status = ''present'', a_notes = []\<rparr>]\<rparr>]
   \<and> list_all (\<lambda>m. list_ex (\<lambda>p. p_id p = m_person m) (people ex_db)) (groupMembers ex_db)
   \<and> getSubgroupAttendanceReport ex_admin 10 (Some 6) (Some 10) ex_db
       = Inr [\<lparr>row_memberId = 100, row_firstName = ''Ben'', row_lastName = ''Ray'',
                row_attendance = []\<rparr>]"
proof -
  have ag: "authorizeGroupAccess ex_admin (IdString 1)"
    by (simp add: authorizeGroupAccess_def ex_admin_def)
  have asg: "authorizeSubgroupAccess ex_admin 10 ex_db"
    by (simp add: authorizeSubgroupAccess_def ex_admin_def)
  have g: "getGroupAttendanceReport ex_admin 1 (Some 0) (Some 10) ex_db
       = Inr [\<lparr>row_memberId = 100, row_firstName = ''Ben'', row_lastName = ''Ray'',
                row_attendance = [\<lparr>a_date = 5, a_status = ''present'', a_notes = []\<rparr>]\<rparr>]"
    by (simp add: getGroupAttendanceReport_def getGroupAttendance_def authorizeGroupAccess_def
        ex_defs)
  have sg: "getSubgroupAttendanceReport ex_admin 10 (Some 0) (Some 10) ex_db
       = Inr [\<lparr>row_memberId = 100, row_firstName = ''Ben'', row_lastName = ''Ray'',
                row_attendance = [\<lparr>a_date = 5, a_status = ''present'', a_notes = []\<rparr>]\<rparr>]"
    by (simp add: getSubgroupAttendanceReport_def authorizeSubgroupAccess_def findOne_def ex_defs)
  have sg2: "getSubgroupAttendanceReport ex_admin 10 (Some 6) (Some 10) ex_db
       = Inr [\<lparr>row_memberId = 100, row_firstName = ''Ben'', row_lastName = ''Ray'',
                row_attendance = []\<rparr>]"
    by (simp add: getSubgroupAttendanceReport_def authorizeSubgroupAccess_def findOne_def ex_defs)
  have ppl: "list_all (\<lambda>m. list_ex (\<lambda>p. p_id p = m_person m) (people ex_db)) (groupMembers ex_db)"
    by (simp add: ex_defs)
  from attendanceReport_rows [of ex_admin 1 0 10 ex_db 10] ag asg g sg sg2 ppl
  show ?thesis by simp
qed

section \<open>The leadership mirror under a group update\<close>

text \<open>
  C10. The mirror holds in the small store: church user 50 of person 11 lists group 1,
  and person 11 leads group 1. \<open>PUT /api/groups/1\<close> with \<open>leaders: [12]\<close> by an
  admin succeeds, replaces the leaders of the group and leaves the church users as they
  are; afterwards user 50 still lists group 1 while person 11 no longer leads it, so the
  mirror does not hold. The group update does not preserve the invariant.
\<close>

theorem updateGroup_breaks_leadershipMirror:
  "leadershipMirror ex_db
   \<and> updateGroup ex_admin 1 (leadersOnly [12]) ex_db
       = (Inr (youth\<lparr>g_leaders := [12]\<rparr>),
          ex_db\<lparr>groups := [youth\<lparr>g_leaders := [12]\<rparr>, choir]\<rparr>)
   \<and> churchUsers (ex_db\<lparr>groups := [youth\<lparr>g_leaders := [12]\<rparr>, choir]\<rparr>) = churchUsers ex_db
   \<and> \<not> leadershipMirror (ex_db\<lparr>groups := [youth\<lparr>g_leaders := [12]\<rparr>, choir]\<rparr>)"
  by (simp add: leadershipMirror_def updateGroup_def groupFields_def leadersOnly_def
      authorizeGroupAccess_def findOne_def ex_defs)

end
